theory Spec2Isabelle
  imports Main "HOL-Library.Word" "HOL-Library.AList"
begin

unbundle bit_operations_syntax

section \<open>Checksum (protocol/parser.js: calculateCRC32, getCRC32Table)\<close>

type_synonym byte = "8 word"
type_synonym uint32 = "32 word"

text \<open>
  The JavaScript bit operators work on 32-bit patterns: \<open>^\<close> and \<open>&\<close> give a signed
  32-bit number, \<open>>>>\<close> reads its operand as unsigned, and a store into a
  \<open>Uint32Array\<close> keeps the pattern. A \<open>32 word\<close> is that pattern, so the sign of the
  intermediate JavaScript numbers does not appear in the model.
\<close>

text \<open>The body of the inner loop: \<open>c = c & 1 ? 0xedb88320 ^ (c >>> 1) : c >>> 1\<close>.\<close>

definition crc_shift :: "uint32 \<Rightarrow> uint32" where
  "crc_shift c = (if c AND 1 \<noteq> 0 then 0xedb88320 XOR drop_bit 1 c else drop_bit 1 c)"

text \<open>The inner loop \<open>for (let j = 0; j < 8; j++)\<close>, started at \<open>c = i\<close>.\<close>

definition crc_table_entry :: "nat \<Rightarrow> uint32" where
  "crc_table_entry i = (crc_shift ^^ 8) (of_nat i)"

text \<open>The outer loop fills the 256 cells of the new \<open>Uint32Array\<close> in order.\<close>

definition generateCRC32Table :: "uint32 list" where
  "generateCRC32Table = map crc_table_entry [0..<256]"

text \<open>
  \<open>getCRC32Table\<close>: the module variable \<open>crc32Table\<close> is \<open>null\<close> (\<open>None\<close>) until the
  first call; the function returns the table and the new value of the variable.
\<close>

definition getCRC32Table :: "uint32 list option \<Rightarrow> uint32 list \<times> uint32 list option" where
  "getCRC32Table crc32Table =
     (case crc32Table of
        Some t \<Rightarrow> (t, crc32Table)
      | None \<Rightarrow> (generateCRC32Table, Some generateCRC32Table))"

text \<open>One round of the byte loop: \<open>crc = (crc >>> 8) ^ table[(crc ^ data[i]) & 0xff]\<close>.\<close>

definition crc_update :: "uint32 list \<Rightarrow> uint32 \<Rightarrow> byte \<Rightarrow> uint32" where
  "crc_update table crc b = drop_bit 8 crc XOR table ! unat ((crc XOR ucast b) AND 0xff)"

text \<open>
  \<open>calculateCRC32\<close>, with the module variable passed in and out. The index of the table
  read is below 256 because of the mask, so it is in range for every table of 256 cells.
\<close>

definition calculateCRC32 :: "uint32 list option \<Rightarrow> byte list \<Rightarrow> uint32 \<times> uint32 list option" where
  "calculateCRC32 crc32Table data =
     (let (table, crc32Table') = getCRC32Table crc32Table
      in (foldl (crc_update table) 0xffffffff data XOR 0xffffffff, crc32Table'))"

subsection \<open>The reference checksum, from the specification's words\<close>

text \<open>
  The standard reflected CRC-32: a 32-bit register starts at \<open>0xFFFFFFFF\<close>; each
  message bit, least significant bit of each byte first, is combined with the lowest
  register bit, the register moves one place to the right, and the polynomial
  \<open>0xEDB88320\<close> is added when the combined bit was one; the result is the register
  with every bit flipped.
\<close>

definition reference_bit :: "uint32 \<Rightarrow> bool \<Rightarrow> uint32" where
  "reference_bit r m =
     (if bit r 0 \<noteq> m then drop_bit 1 r XOR 0xedb88320 else drop_bit 1 r)"

definition reference_byte :: "uint32 \<Rightarrow> byte \<Rightarrow> uint32" where
  "reference_byte r b = foldl reference_bit r (map (bit b) [0..<8])"

definition reference_crc32 :: "byte list \<Rightarrow> uint32" where
  "reference_crc32 data = foldl reference_byte 0xffffffff data XOR 0xffffffff"

section \<open>Node.js primitives used by the parser\<close>

text \<open>
  \<open>Buffer.prototype.indexOf\<close> with a one-byte needle: the index of the first occurrence,
  or \<open>-1\<close>.
\<close>

fun indexOf :: "byte list \<Rightarrow> byte \<Rightarrow> int" where
  "indexOf [] b = -1"
| "indexOf (x # xs) b =
     (if x = b then 0 else (let r = indexOf xs b in if r = -1 then -1 else r + 1))"

text \<open>
  \<open>Buffer.prototype.subarray(start, end)\<close>: a negative offset counts from the end, and
  both offsets are clamped to the buffer; an omitted \<open>end\<close> (\<open>None\<close>) is the length.
\<close>

definition adjustOffset :: "int \<Rightarrow> nat \<Rightarrow> nat" where
  "adjustOffset offset len =
     (if offset < 0 then (if int len + offset > 0 then nat (int len + offset) else 0)
      else if offset < int len then nat offset
      else len)"

definition subarray :: "byte list \<Rightarrow> int \<Rightarrow> int option \<Rightarrow> byte list" where
  "subarray buf start fin =
     (let srcLength = length buf;
          s = adjustOffset start srcLength;
          e = (case fin of Some x \<Rightarrow> adjustOffset x srcLength | None \<Rightarrow> srcLength);
          newLength = (if e > s then e - s else 0)
      in take newLength (drop s buf))"

text \<open>
  \<open>Buffer.prototype.readBigInt64LE(offset)\<close>: the eight bytes from \<open>offset\<close>, least
  significant first, read as a two's complement number; a \<open>RangeError\<close> (\<open>None\<close>)
  when the buffer has no eight bytes there.
\<close>

fun little_endian :: "byte list \<Rightarrow> int" where
  "little_endian [] = 0"
| "little_endian (b # bs) = uint b + 256 * little_endian bs"

definition readBigInt64LE :: "byte list \<Rightarrow> int \<Rightarrow> int option" where
  "readBigInt64LE buf offset =
     (if offset < 0 \<or> int (length buf) < offset + 8 then None
      else let u = little_endian (take 8 (drop (nat offset) buf))
           in Some (if u < 2 ^ 63 then u else u - 2 ^ 64))"

text \<open>
  \<open>Number(bigint)\<close> gives the nearest double, ties to the even significand. A double
  holds every integer of magnitude up to \<open>2^53\<close>; a larger one keeps its 53 leading bits.
\<close>

function bit_length :: "int \<Rightarrow> nat" where
  "bit_length n = (if n \<le> 0 then 0 else Suc (bit_length (n div 2)))"
  by pat_completeness auto
termination
  by (relation "measure nat") auto

declare bit_length.simps [simp del]

definition Number :: "int \<Rightarrow> int" where
  "Number x =
     (if \<bar>x\<bar> \<le> 2 ^ 53 then x
      else let e = bit_length \<bar>x\<bar> - 53;
               q = \<bar>x\<bar> div 2 ^ e;
               r = \<bar>x\<bar> mod 2 ^ e;
               half = 2 ^ (e - 1);
               q' = (if r > half \<or> (r = half \<and> odd q) then q + 1 else q)
           in sgn x * (q' * 2 ^ e))"

text \<open>
  \<open>a + b\<close> on two integer-valued doubles far below the overflow threshold: the exact
  sum, rounded once.
\<close>

definition js_add :: "int \<Rightarrow> int \<Rightarrow> int" where
  "js_add a b = Number (a + b)"

section \<open>Messages\<close>

text \<open>
  A value of a metadata field after \<open>JSON.parse\<close>. \<open>JNum n\<close> is a number whose value is
  the integer \<open>n\<close>; \<open>JUnprintable i\<close> is an object that has a key \<open>toString\<close>;
  \<open>JOther i\<close> is any other value (an array, an object without that key, a number that
  is not an integer). The identifier \<open>i\<close> is equal exactly when \<open>===\<close> holds.
  \<open>JUndefined\<close> is the value of a field the object does not have.
\<close>

datatype jv =
  JUndefined | JNull | JBool bool | JNum int | JStr string | JOther nat | JUnprintable nat

text \<open>JavaScript truthiness, as tested by \<open>||\<close>, \<open>!\<close> and \<open>if\<close>.\<close>

fun truthy :: "jv \<Rightarrow> bool" where
  "truthy JUndefined = False"
| "truthy JNull = False"
| "truthy (JBool b) = b"
| "truthy (JNum n) = (n \<noteq> 0)"
| "truthy (JStr s) = (s \<noteq> [])"
| "truthy (JOther i) = True"
| "truthy (JUnprintable i) = True"

text \<open>
  Whether a value can be put into a template literal \<open>`... ${v} ...`\<close>. The conversion
  to a string calls the value's \<open>toString\<close>; an object that \<open>JSON.parse\<close> built
  with a key \<open>toString\<close> holds a value there that is no function, and the conversion
  throws a \<open>TypeError\<close>. A template is evaluated before the function it is an argument of is
  called, so \<open>log.debug(`... ${v}`)\<close> throws although debug logging is off.
\<close>

fun printable :: "jv \<Rightarrow> bool" where
  "printable (JUnprintable i) = False"
| "printable v = True"

text \<open>The fields of a metadata object that the program reads.\<close>

record metadata =
  msgType :: jv
  protocolVersion :: jv
  messageType :: jv
  sessionId :: jv
  documentType :: jv
  originalPath :: jv
  outputFormat :: jv
  mimeType :: jv
  timestamp :: jv
  sequenceNumber :: jv
  transportMode :: jv
  filePath :: jv
  mmapName :: jv
  dataSize :: jv
  checksum :: jv
  commandId :: jv
  commandType :: jv

text \<open>
  The result of \<open>JSON.parse\<close> on a line: \<open>null\<close>, or a value whose properties can be
  read (for a number, a string, a boolean or an array every field above is
  \<open>JUndefined\<close>).
\<close>

datatype json = JsonNull | JsonValue metadata

section \<open>Effects: responses, callbacks, log lines\<close>

text \<open>The fields of \<open>package.json\<close> that the responses use.\<close>

record package_info =
  pkg_name :: jv
  pkg_version :: jv
  pkg_description :: jv
  pkg_author :: string
  pkg_websiteUrl :: string

text \<open>
  An error message is kept as the template that builds it and the values put into it:
  \<open>UnknownCommandType t\<close> is \<open>`Unknown command type: ${t}`\<close>.
\<close>

datatype command_error = UnknownCommandType jv

text \<open>A line written to standard output (protocol/ack.js).\<close>

datatype response =
    InitializeResponse package_info
  | Ack jv string
  | Pong
  | CommandResult jv bool "jv option" "command_error option"

text \<open>
  An exception: the \<open>TypeError\<close> of reading a property of \<open>null\<close>, the \<open>TypeError\<close> of
  a conversion to a string, the error of \<open>Buffer.toString\<close> on more bytes than a string
  can hold, the \<open>RangeError\<close> of a read outside the buffer, a failure to load
  \<open>package.json\<close>.
\<close>

datatype thrown =
    TypeErrorNull
  | TypeErrorToString
  | StringTooLong
  | RangeError
  | PackageInfoError string

text \<open>What a call does: it returns a value, or it throws.\<close>

datatype 'a completion = Returned 'a | Threw thrown

text \<open>
  The \<open>message\<close> of an error caught around a transport read:
  an operating-system error of \<open>readFile\<close>, one of the messages of transport/mmap.js,
  or the message of an exception.
\<close>

datatype cause =
    IoError string
  | WindowsSupportNotAvailable
  | OpenFileMappingFailed jv nat
  | MapViewFailed nat
  | MacOSRequiresFilePath
  | PlatformNotSupported string
  | MessageOf thrown

text \<open>
  The error handed to \<open>onError\<close>:
  \<open>`Failed to parse JSON metadata: ${err.message}`\<close>,
  \<open>`Failed to read file: ${err.message}`\<close>, \<open>`Failed to read mmap: ${err.message}`\<close>,
  \<open>`Checksum mismatch: expected ${metadata.checksum}, got ${calculatedChecksum}`\<close>, or an
  exception caught by the listener of \<open>start\<close>.
\<close>

datatype protocol_error =
    FailedToParseJSON string
  | FailedToReadFile cause
  | FailedToReadMmap cause
  | ChecksumMismatch jv uint32
  | Uncaught thrown

text \<open>A call of one of the callbacks given to \<open>createProtocolParser\<close>.\<close>

datatype callback =
    OnSnapshot metadata "byte list"
  | OnHeartbeat
  | OnSessionClosed jv
  | OnSessionUnbound jv
  | OnShutdown
  | OnInitialized
  | OnError protocol_error

datatype event = Stdout response | Callback callback

text \<open>
  Lines written to standard error at the levels info, warn and error. \<open>main\<close> calls
  \<open>initLogger(false)\<close>, so every \<open>log.debug\<close> returns at once and has no entry here.
\<close>

datatype log_entry =
    InfoReceivedInitialize jv
  | InfoSentInitializeResponse
  | InfoHandshakeComplete
  | WarnUnknownMessageType jv
  | WarnCommandWithoutId
  | WarnUnknownCommandType jv
  | ErrorFailedToReadFile string
  | InfoWindowsInitialized
  | WarnWindowsNotAvailable string
  | WarnInstallKoffi
  | WarnDataSizeMismatch jv nat

section \<open>Environment and state\<close>

text \<open>A path given to \<open>readFile\<close>: a metadata value, or \<open>`/dev/shm${mmapName}`\<close>.\<close>

datatype fs_path = Path jv | DevShm jv

text \<open>A JavaScript string, held as the bytes of its UTF-8 encoding.\<close>

type_synonym js_string = "byte list"

text \<open>
  What the program takes from outside itself: \<open>Buffer.toString('utf-8')\<close>, which
  throws (\<open>None\<close>) when the text is longer than a string can be, \<open>JSON.parse\<close>
  (\<open>Inl\<close> the message of the \<open>SyntaxError\<close>), the configured transport, the file
  system (\<open>Inl\<close> the message of the error), the platform, the loading of the
  foreign-call bridge (\<open>Some\<close> the message when it fails), the two operating-system
  calls behind it (\<open>Inl\<close> the code of \<open>GetLastError\<close>; the view is returned as the bytes
  copied out of it), and \<open>package.json\<close>.
\<close>

record env =
  toString_utf8 :: "byte list \<Rightarrow> js_string option"
  JSON_parse :: "js_string \<Rightarrow> string + json"
  defaultTransport :: string
  readFile :: "fs_path \<Rightarrow> string + byte list"
  currentPlatform :: string
  koffi_import :: "string option"
  OpenFileMappingW :: "jv \<Rightarrow> nat + nat"
  MapViewOfFile :: "nat \<Rightarrow> jv \<Rightarrow> nat + byte list"
  package_json :: "string + package_info"

text \<open>
  The variables of the parser closure (\<open>buffer\<close>, \<open>started\<close>), of the modules
  (\<open>handshakeComplete\<close>, \<open>crc32Table\<close>, \<open>windowsInitialized\<close>, \<open>windowsInitError\<close>), and
  what has been emitted so far.
\<close>

record parser_state =
  buffer :: "byte list"
  started :: bool
  handshakeComplete :: bool
  crc32Table :: "uint32 list option"
  windowsInitialized :: bool
  windowsInitError :: "string option"
  trace :: "event list"
  stderr :: "log_entry list"

definition emit :: "event \<Rightarrow> parser_state \<Rightarrow> parser_state" where
  "emit e st = st\<lparr>trace := trace st @ [e]\<rparr>"

definition log :: "log_entry \<Rightarrow> parser_state \<Rightarrow> parser_state" where
  "log l st = st\<lparr>stderr := stderr st @ [l]\<rparr>"

section \<open>Responses (protocol/ack.js)\<close>

text \<open>
  \<open>sendAck\<close> writes the line and then evaluates
  \<open>`Sent ACK for sequence ${sequenceNumber}`\<close>.
\<close>

definition sendAck :: "jv \<Rightarrow> parser_state \<Rightarrow> unit completion \<times> parser_state" where
  "sendAck seq st =
     (if printable seq then Returned () else Threw TypeErrorToString,
      emit (Stdout (Ack seq ''processed'')) st)"

definition sendPong :: "parser_state \<Rightarrow> parser_state" where
  "sendPong st = emit (Stdout Pong) st"

text \<open>
  \<open>sendInitializeResponse\<close> awaits \<open>getPackageInfo\<close>, which rejects when \<open>package.json\<close>
  cannot be read or parsed (\<open>Inl\<close> also when building the response from it throws); its
  cache holds what the first read gave. After the write it evaluates
  \<open>`Sent initialize_response: ${pkg.name}@${pkg.version}`\<close>.
\<close>

definition sendInitializeResponse :: "env \<Rightarrow> parser_state \<Rightarrow> unit completion \<times> parser_state" where
  "sendInitializeResponse E st =
     (case package_json E of
        Inl msg \<Rightarrow> (Threw (PackageInfoError msg), st)
      | Inr pkg \<Rightarrow>
          if printable (pkg_name pkg) \<and> printable (pkg_version pkg)
          then (Returned (),
                log InfoSentInitializeResponse (emit (Stdout (InitializeResponse pkg)) st))
          else (Threw TypeErrorToString, emit (Stdout (InitializeResponse pkg)) st))"

text \<open>
  \<open>sendCommandResult\<close>: \<open>result\<close> and \<open>error\<close> default to \<open>null\<close> (\<open>None\<close>);
  \<open>result\<close> is put into the response when \<open>success && result\<close>, \<open>error\<close> when
  \<open>!success && error\<close>. The result object \<open>{ version: v }\<close> is \<open>Some v\<close>; an object
  is truthy, and so is an error message built from a template, which is not empty.
  After the write it evaluates \<open>`Sent command_result for ${commandId}: ...`\<close>.
\<close>

definition sendCommandResult ::
  "jv \<Rightarrow> bool \<Rightarrow> jv option \<Rightarrow> command_error option \<Rightarrow> parser_state
     \<Rightarrow> unit completion \<times> parser_state" where
  "sendCommandResult cid success result error st =
     (if printable cid then Returned () else Threw TypeErrorToString,
      emit (Stdout (CommandResult cid success
        (if success \<and> result \<noteq> None then result else None)
        (if \<not> success \<and> error \<noteq> None then error else None))) st)"

section \<open>Commands (protocol/command.js)\<close>

text \<open>\<open>getVersion\<close>: the version of \<open>package.json\<close>, or \<open>'unknown'\<close> when reading it fails.\<close>

definition getVersion :: "env \<Rightarrow> jv" where
  "getVersion E = (case package_json E of Inr pkg \<Rightarrow> pkg_version pkg | Inl msg \<Rightarrow> JStr ''unknown'')"

text \<open>
  \<open>handleCommand\<close>. After the test of \<open>commandId\<close> it evaluates
  \<open>`Handling command: ${commandType} (${commandId})`\<close>, before any response is written.
\<close>

definition handleCommand :: "env \<Rightarrow> metadata \<Rightarrow> parser_state \<Rightarrow> unit completion \<times> parser_state" where
  "handleCommand E metadata st =
     (if \<not> truthy (commandId metadata) then (Returned (), log WarnCommandWithoutId st)
      else if \<not> printable (commandType metadata) \<or> \<not> printable (commandId metadata)
        then (Threw TypeErrorToString, st)
      else if commandType metadata = JStr ''get_version''
        then sendCommandResult (commandId metadata) True (Some (getVersion E)) None st
      else sendCommandResult (commandId metadata) False None
             (Some (UnknownCommandType (commandType metadata)))
             (log (WarnUnknownCommandType (commandType metadata)) st))"

section \<open>Transports (protocol/transport/file.js, protocol/transport/mmap.js)\<close>

text \<open>
  A transport returns the bytes, or \<open>Inl\<close> the message of the error it throws.
  \<open>readFromFile\<close> evaluates \<open>`Reading from file: ${filePath}`\<close> before its \<open>try\<close>.
\<close>

definition readFromFile :: "env \<Rightarrow> jv \<Rightarrow> parser_state \<Rightarrow> (cause + byte list) \<times> parser_state" where
  "readFromFile E fp st =
     (if \<not> printable fp then (Inl (MessageOf TypeErrorToString), st)
      else case readFile E (Path fp) of
             Inr data \<Rightarrow> (Inr data, st)
           | Inl msg \<Rightarrow> (Inl (IoError msg), log (ErrorFailedToReadFile msg) st))"

definition initializeWindowsAsync :: "env \<Rightarrow> parser_state \<Rightarrow> bool \<times> parser_state" where
  "initializeWindowsAsync E st =
     (if windowsInitialized st then (windowsInitError st = None, st)
      else let st1 = st\<lparr>windowsInitialized := True\<rparr>
           in case koffi_import E of
                None \<Rightarrow> (True, log InfoWindowsInitialized st1)
              | Some msg \<Rightarrow>
                  (False, log WarnInstallKoffi (log (WarnWindowsNotAvailable msg)
                            (st1\<lparr>windowsInitError := Some msg\<rparr>))))"

text \<open>
  \<open>readFromWindowsMmap\<close>: the handle is closed and the view unmapped in \<open>finally\<close>
  blocks, which change nothing the parser sees.
\<close>

definition readFromWindowsMmap :: "env \<Rightarrow> jv \<Rightarrow> jv \<Rightarrow> cause + byte list" where
  "readFromWindowsMmap E name dsize =
     (case OpenFileMappingW E name of
        Inl code \<Rightarrow> Inl (OpenFileMappingFailed name code)
      | Inr hMapFile \<Rightarrow>
          (case MapViewOfFile E hMapFile dsize of
             Inl code \<Rightarrow> Inl (MapViewFailed code)
           | Inr data \<Rightarrow> Inr data))"

definition size_check :: "jv \<Rightarrow> byte list \<Rightarrow> parser_state \<Rightarrow> parser_state" where
  "size_check dsize data st =
     (if JNum (int (length data)) \<noteq> dsize then log (WarnDataSizeMismatch dsize (length data)) st
      else st)"

definition readFromLinuxMmap ::
  "env \<Rightarrow> jv \<Rightarrow> jv \<Rightarrow> parser_state \<Rightarrow> (cause + byte list) \<times> parser_state" where
  "readFromLinuxMmap E name dsize st =
     (case readFile E (DevShm name) of
        Inl msg \<Rightarrow> (Inl (IoError msg), st)
      | Inr data \<Rightarrow> (Inr data, size_check dsize data st))"

text \<open>
  \<open>readFromMacOSMmap\<close> evaluates \<open>`Reading from macOS file-backed mmap: ${filePath}`\<close>
  first.
\<close>

definition readFromMacOSMmap ::
  "env \<Rightarrow> jv \<Rightarrow> jv \<Rightarrow> parser_state \<Rightarrow> (cause + byte list) \<times> parser_state" where
  "readFromMacOSMmap E fp dsize st =
     (if \<not> printable fp then (Inl (MessageOf TypeErrorToString), st)
      else case readFile E (Path fp) of
             Inl msg \<Rightarrow> (Inl (IoError msg), st)
           | Inr data \<Rightarrow> (Inr data, size_check dsize data st))"

text \<open>
  \<open>readFromMmap\<close> evaluates \<open>`Reading from mmap: ${mmapName}, size: ${dataSize}, ...`\<close>
  before the switch on the platform.
\<close>

definition readFromMmap ::
  "env \<Rightarrow> jv \<Rightarrow> jv \<Rightarrow> jv \<Rightarrow> parser_state \<Rightarrow> (cause + byte list) \<times> parser_state" where
  "readFromMmap E name dsize fp st =
     (if \<not> printable name \<or> \<not> printable dsize then (Inl (MessageOf TypeErrorToString), st)
      else if currentPlatform E = ''win32'' then
        (case initializeWindowsAsync E st of
           (False, st1) \<Rightarrow> (Inl WindowsSupportNotAvailable, st1)
         | (True, st1) \<Rightarrow> (readFromWindowsMmap E name dsize, st1))
      else if currentPlatform E = ''linux'' then readFromLinuxMmap E name dsize st
      else if currentPlatform E = ''darwin'' then
        (if \<not> truthy fp then (Inl MacOSRequiresFilePath, st)
         else readFromMacOSMmap E fp dsize st)
      else (Inl (PlatformNotSupported (currentPlatform E)), st))"

section \<open>The parser (protocol/parser.js)\<close>

text \<open>
  The callbacks are those of \<open>main\<close> (index.js). \<open>onSnapshot\<close> first evaluates
  \<open>`Received snapshot for session ${metadata.sessionId}`\<close>, \<open>onSessionClosed\<close> and
  \<open>onSessionUnbound\<close> first evaluate a template with the session id; these throw
  before they do anything else. \<open>onInitialized\<close> and \<open>onShutdown\<close> are \<open>async\<close>
  functions, whose call returns a promise and does not throw; \<open>onHeartbeat\<close> and
  \<open>onError\<close> convert no metadata value. (\<open>updateSnapshot\<close> converts the sequence
  number too, but the parser calls \<open>sendAck\<close> with it before \<open>onSnapshot\<close>.)
\<close>

fun callback_throws :: "callback \<Rightarrow> bool" where
  "callback_throws (OnSnapshot metadata d) = (\<not> printable (sessionId metadata))"
| "callback_throws (OnSessionClosed sid) = (\<not> printable sid)"
| "callback_throws (OnSessionUnbound sid) = (\<not> printable sid)"
| "callback_throws c = False"

text \<open>A call of a callback: the call is recorded, and it returns or throws.\<close>

definition invoke :: "callback \<Rightarrow> parser_state \<Rightarrow> unit completion \<times> parser_state" where
  "invoke c st =
     (if callback_throws c then Threw TypeErrorToString else Returned (), emit (Callback c) st)"

definition onError :: "protocol_error \<Rightarrow> parser_state \<Rightarrow> parser_state" where
  "onError err st = emit (Callback (OnError err)) st"

text \<open>
  The statements \<open>sendAck(metadata.sequenceNumber); onSnapshot(metadata, data);\<close>:
  the second is not reached when the first throws.
\<close>

definition ack_then_deliver ::
  "metadata \<Rightarrow> byte list \<Rightarrow> parser_state \<Rightarrow> unit completion \<times> parser_state" where
  "ack_then_deliver metadata data st =
     (case sendAck (sequenceNumber metadata) st of
        (Threw x, st1) \<Rightarrow> (Threw x, st1)
      | (Returned u, st1) \<Rightarrow> invoke (OnSnapshot metadata data) st1)"

text \<open>\<open>return true\<close> after a call, unless the call threw.\<close>

fun then_true :: "unit completion \<times> parser_state \<Rightarrow> bool completion \<times> parser_state" where
  "then_true (Returned u, st) = (Returned True, st)"
| "then_true (Threw x, st) = (Threw x, st)"

text \<open>\<open>metadata.transportMode || defaultTransport\<close>.\<close>

definition effective_transportMode :: "env \<Rightarrow> metadata \<Rightarrow> jv" where
  "effective_transportMode E metadata =
     (if truthy (transportMode metadata) then transportMode metadata
      else JStr (defaultTransport E))"

text \<open>
  \<open>parseSnapshot\<close>. In the file and mmap modes the line is consumed before the read;
  the read, the acknowledgement and the delivery are inside one \<open>try\<close>, whose \<open>catch\<close>
  hands the message of whatever was thrown to \<open>onError\<close>. In the inline mode nothing
  changes before the whole frame is in the buffer; the message of a checksum
  mismatch is built from \<open>metadata.checksum\<close> before \<open>onError\<close> is called, and nothing
  catches what is thrown there or by the acknowledgement and the delivery.
\<close>

definition parseSnapshot ::
  "env \<Rightarrow> metadata \<Rightarrow> int \<Rightarrow> parser_state \<Rightarrow> bool completion \<times> parser_state" where
  "parseSnapshot E metadata newlineIndex st =
     (let mode = effective_transportMode E metadata
      in
      if mode = JStr ''file'' then
        (case readFromFile E (filePath metadata)
                (st\<lparr>buffer := subarray (buffer st) (newlineIndex + 1) None\<rparr>) of
           (Inr data, st1) \<Rightarrow>
             (case ack_then_deliver metadata data st1 of
                (Returned u, st2) \<Rightarrow> (Returned True, st2)
              | (Threw x, st2) \<Rightarrow> (Returned True, onError (FailedToReadFile (MessageOf x)) st2))
         | (Inl err, st1) \<Rightarrow> (Returned True, onError (FailedToReadFile err) st1))
      else if mode = JStr ''mmap'' then
        (case readFromMmap E (mmapName metadata) (dataSize metadata) (filePath metadata)
                (st\<lparr>buffer := subarray (buffer st) (newlineIndex + 1) None\<rparr>) of
           (Inr data, st1) \<Rightarrow>
             (case ack_then_deliver metadata data st1 of
                (Returned u, st2) \<Rightarrow> (Returned True, st2)
              | (Threw x, st2) \<Rightarrow> (Returned True, onError (FailedToReadMmap (MessageOf x)) st2))
         | (Inl err, st1) \<Rightarrow> (Returned True, onError (FailedToReadMmap err) st1))
      else
        (let dataStart = newlineIndex + 1;
             lengthPrefixSize = 8
         in
         if int (length (buffer st)) < dataStart + lengthPrefixSize then (Returned False, st)
         else
           (case readBigInt64LE (buffer st) dataStart of
              None \<Rightarrow> (Threw RangeError, st)
            | Some dsize \<Rightarrow>
                (let totalSize = js_add (dataStart + lengthPrefixSize) (Number dsize)
                 in
                 if int (length (buffer st)) < totalSize then (Returned False, st)
                 else
                   (let binaryData =
                          subarray (buffer st) (dataStart + lengthPrefixSize) (Some totalSize);
                        st1 = st\<lparr>buffer := subarray (buffer st) totalSize None\<rparr>
                    in
                    if checksum metadata \<noteq> JUndefined then
                      (let (calculatedChecksum, table) = calculateCRC32 (crc32Table st1) binaryData;
                           st2 = st1\<lparr>crc32Table := table\<rparr>
                       in
                       if JNum (uint calculatedChecksum) \<noteq> checksum metadata then
                         (if printable (checksum metadata) then
                            (Returned True,
                             onError (ChecksumMismatch (checksum metadata) calculatedChecksum) st2)
                          else (Threw TypeErrorToString, st2))
                       else then_true (ack_then_deliver metadata binaryData st2))
                    else then_true (ack_then_deliver metadata binaryData st1))))))"

definition newline :: byte where
  "newline = 0x0a"

definition consume_line :: "int \<Rightarrow> parser_state \<Rightarrow> parser_state" where
  "consume_line newlineIndex st = st\<lparr>buffer := subarray (buffer st) (newlineIndex + 1) None\<rparr>"

text \<open>
  \<open>parseMessage\<close>. The conversion of the line to a string is outside the \<open>try\<close> that
  is around \<open>JSON.parse\<close>. Reading \<open>metadata.type\<close> throws a \<open>TypeError\<close> when the line
  is the JSON text \<open>null\<close>, and \<open>`Received message type: ${msgType}`\<close> is evaluated
  before the \<open>switch\<close>; all that happens before anything is consumed. The case
  \<open>initialize\<close> converts \<open>metadata.protocolVersion\<close> after it has consumed the line; the
  default case converts \<open>metadata.messageType\<close> before it consumes the line.
\<close>

definition parseMessage :: "env \<Rightarrow> parser_state \<Rightarrow> bool completion \<times> parser_state" where
  "parseMessage E st =
     (let newlineIndex = indexOf (buffer st) newline
      in
      if newlineIndex = -1 then (Returned False, st)
      else
        (case toString_utf8 E (subarray (buffer st) 0 (Some newlineIndex)) of
           None \<Rightarrow> (Threw StringTooLong, st)
         | Some jsonLine \<Rightarrow>
        (case JSON_parse E jsonLine of
           Inl msg \<Rightarrow> (Returned True, consume_line newlineIndex (onError (FailedToParseJSON msg) st))
         | Inr JsonNull \<Rightarrow> (Threw TypeErrorNull, st)
         | Inr (JsonValue metadata) \<Rightarrow>
             if \<not> printable (msgType metadata) then (Threw TypeErrorToString, st)
             else if msgType metadata = JStr ''initialize'' then
               (if \<not> printable (protocolVersion metadata)
                then (Threw TypeErrorToString, consume_line newlineIndex st)
                else then_true (sendInitializeResponse E
                       (log (InfoReceivedInitialize (protocolVersion metadata))
                          (consume_line newlineIndex st))))
             else if msgType metadata = JStr ''initialized'' then
               then_true (invoke OnInitialized
                            (log InfoHandshakeComplete
                               ((consume_line newlineIndex st)\<lparr>handshakeComplete := True\<rparr>)))
             else if msgType metadata = JStr ''heartbeat'' then
               then_true (invoke OnHeartbeat (sendPong (consume_line newlineIndex st)))
             else if msgType metadata = JStr ''session_closed'' then
               then_true (invoke (OnSessionClosed (sessionId metadata))
                            (consume_line newlineIndex st))
             else if msgType metadata = JStr ''session_unbound'' then
               then_true (invoke (OnSessionUnbound (sessionId metadata))
                            (consume_line newlineIndex st))
             else if msgType metadata = JStr ''shutdown'' then
               then_true (invoke OnShutdown (consume_line newlineIndex st))
             else if msgType metadata = JStr ''snapshot'' then
               parseSnapshot E metadata newlineIndex st
             else if msgType metadata = JStr ''command'' then
               then_true (handleCommand E metadata (consume_line newlineIndex st))
             else if \<not> printable (messageType metadata) then (Threw TypeErrorToString, st)
             else
               (Returned True,
                consume_line newlineIndex
                  (log (WarnUnknownMessageType (messageType metadata)) st)))))"

text \<open>What the two steps of decoding give on a line, when the first does not throw.\<close>

definition decode :: "env \<Rightarrow> byte list \<Rightarrow> (string + json) option" where
  "decode E line = map_option (JSON_parse E) (toString_utf8 E line)"

text \<open>
  The loop of \<open>processData\<close>: \<open>while (await parseMessage()) {}\<close>. It has no bound of
  its own, so it is a partial function: \<open>None\<close> is a loop that never ends.
\<close>

partial_function (option) parse_loop ::
  "env \<Rightarrow> parser_state \<Rightarrow> (unit completion \<times> parser_state) option" where
  "parse_loop E st =
     (case parseMessage E st of
        (Returned again, st') \<Rightarrow> if again then parse_loop E st' else Some (Returned (), st')
      | (Threw x, st') \<Rightarrow> Some (Threw x, st'))"

definition processData ::
  "env \<Rightarrow> byte list \<Rightarrow> parser_state \<Rightarrow> (unit completion \<times> parser_state) option" where
  "processData E data st = parse_loop E (st\<lparr>buffer := buffer st @ data\<rparr>)"

text \<open>
  The listener that \<open>start\<close> puts on the \<open>data\<close> event of standard input: it awaits
  \<open>processData\<close> and hands what it throws to \<open>onError\<close>.
\<close>

definition on_data :: "env \<Rightarrow> byte list \<Rightarrow> parser_state \<Rightarrow> parser_state option" where
  "on_data E chunk st =
     (case processData E chunk st of
        None \<Rightarrow> None
      | Some (Returned u, st') \<Rightarrow> Some st'
      | Some (Threw x, st') \<Rightarrow> Some (onError (Uncaught x) st'))"

text \<open>The chunks of standard input, one \<open>data\<close> event after the other.\<close>

fun feed :: "env \<Rightarrow> byte list list \<Rightarrow> parser_state \<Rightarrow> parser_state option" where
  "feed E [] st = Some st"
| "feed E (chunk # chunks) st =
     (case on_data E chunk st of None \<Rightarrow> None | Some st' \<Rightarrow> feed E chunks st')"

definition start :: "parser_state \<Rightarrow> parser_state" where
  "start st = (if started st then st else st\<lparr>started := True\<rparr>)"

definition stop :: "parser_state \<Rightarrow> parser_state" where
  "stop st = st\<lparr>started := False\<rparr>"

definition isReady :: "parser_state \<Rightarrow> bool" where
  "isReady st = handshakeComplete st"

section \<open>The session store (session/store.js)\<close>

text \<open>The object that \<open>updateSnapshot\<close> builds: the fields of the typedef \<open>SessionSnapshot\<close>.\<close>

record SessionSnapshot =
  snap_sessionId :: jv
  snap_documentType :: jv
  snap_originalPath :: jv
  snap_outputFormat :: jv
  snap_mimeType :: jv
  snap_timestamp :: jv
  snap_sequenceNumber :: jv
  snap_data :: "byte list"
  snap_hasUpdate :: bool

text \<open>
  \<open>this.sessions\<close> is a JavaScript \<open>Map\<close>: its entries in insertion order. \<open>Map.set\<close>
  replaces the value of a key that is present, where it stands, and appends a new key.
  The store starts empty and every method keeps the keys distinct.
\<close>

type_synonym sessions = "(jv \<times> SessionSnapshot) list"

text \<open>The object literal \<open>snapshot\<close> of \<open>updateSnapshot\<close>.\<close>

definition snapshot :: "jv \<Rightarrow> metadata \<Rightarrow> byte list \<Rightarrow> SessionSnapshot" where
  "snapshot sid metadata d =
     \<lparr>snap_sessionId = sid,
      snap_documentType = documentType metadata,
      snap_originalPath = originalPath metadata,
      snap_outputFormat = outputFormat metadata,
      snap_mimeType = mimeType metadata,
      snap_timestamp = timestamp metadata,
      snap_sequenceNumber = sequenceNumber metadata,
      snap_data = d,
      snap_hasUpdate = True\<rparr>"

definition updateSnapshot :: "jv \<Rightarrow> metadata \<Rightarrow> byte list \<Rightarrow> sessions \<Rightarrow> sessions" where
  "updateSnapshot sid metadata d store = AList.update sid (snapshot sid metadata d) store"

definition getSession :: "sessions \<Rightarrow> jv \<Rightarrow> SessionSnapshot option" where
  "getSession store sid = map_of store sid"

definition markAsViewed :: "jv \<Rightarrow> sessions \<Rightarrow> sessions" where
  "markAsViewed sid store =
     (case map_of store sid of
        Some session \<Rightarrow> AList.update sid (session\<lparr>snap_hasUpdate := False\<rparr>) store
      | None \<Rightarrow> store)"

definition removeSession :: "jv \<Rightarrow> sessions \<Rightarrow> sessions" where
  "removeSession sid store = AList.delete sid store"

text \<open>All the records that the store holds under one session id.\<close>

definition records_of :: "sessions \<Rightarrow> jv \<Rightarrow> SessionSnapshot list" where
  "records_of store sid = map snd (filter (\<lambda>entry. fst entry = sid) store)"

section \<open>The callbacks of the entry point (index.js: main)\<close>

text \<open>
  A message given to \<open>broadcast\<close>, without the time stamp that \<open>new Date()\<close> puts on log
  messages.
\<close>

datatype ws_message =
    WsSnapshot jv jv jv jv jv
  | WsLogReceivedSnapshot jv jv jv jv
  | WsLogHeartbeat
  | WsLogHandshakeComplete
  | WsLogProtocolError protocol_error
  | WsSessionClosed jv
  | WsSessionUnbound jv
  | WsShutdown

datatype host_effect = Broadcast ws_message | StartServer | OpenBrowser | Shutdown

text \<open>
  The variables of \<open>main\<close> and of the store module: the sessions, the flag
  \<open>serverStarted\<close>, and what the callbacks have done so far.
\<close>

record host_state =
  sessionStore :: sessions
  serverStarted :: bool
  effects :: "host_effect list"

definition perform :: "host_effect list \<Rightarrow> host_state \<Rightarrow> host_state" where
  "perform es h = h\<lparr>effects := effects h @ es\<rparr>"

text \<open>
  The callback object given to \<open>createProtocolParser\<close>; \<open>noOpen\<close> is the configuration
  option. \<open>onInitialized\<close> sets \<open>serverStarted\<close> before its first \<open>await\<close>.
\<close>

fun host_callback :: "bool \<Rightarrow> callback \<Rightarrow> host_state \<Rightarrow> host_state" where
  "host_callback noOpen (OnSnapshot metadata d) h =
     perform
       [Broadcast (WsSnapshot (sessionId metadata) (documentType metadata) (originalPath metadata)
                     (outputFormat metadata) (timestamp metadata)),
        Broadcast (WsLogReceivedSnapshot (sessionId metadata) (documentType metadata)
                     (outputFormat metadata) (sequenceNumber metadata))]
       (h\<lparr>sessionStore := updateSnapshot (sessionId metadata) metadata d (sessionStore h)\<rparr>)"
| "host_callback noOpen OnHeartbeat h = perform [Broadcast WsLogHeartbeat] h"
| "host_callback noOpen (OnSessionClosed sid) h =
     perform [Broadcast (WsSessionClosed sid)]
       (h\<lparr>sessionStore := removeSession sid (sessionStore h)\<rparr>)"
| "host_callback noOpen (OnSessionUnbound sid) h =
     perform [Broadcast (WsSessionUnbound sid)]
       (h\<lparr>sessionStore := removeSession sid (sessionStore h)\<rparr>)"
| "host_callback noOpen OnInitialized h =
     (if \<not> serverStarted h then
        perform ([StartServer] @ (if noOpen then [] else [OpenBrowser])
                 @ [Broadcast WsLogHandshakeComplete])
          (h\<lparr>serverStarted := True\<rparr>)
      else h)"
| "host_callback noOpen OnShutdown h = perform [Broadcast WsShutdown, Shutdown] h"
| "host_callback noOpen (OnError err) h = perform [Broadcast (WsLogProtocolError err)] h"


section \<open>Initial state and example inputs\<close>

text \<open>The values the variables are declared with.\<close>

definition initial_state :: parser_state where
  "initial_state =
     \<lparr>buffer = [], started = False, handshakeComplete = False, crc32Table = None,
      windowsInitialized = False, windowsInitError = None, trace = [], stderr = []\<rparr>"

definition initial_host :: host_state where
  "initial_host = \<lparr>sessionStore = [], serverStarted = False, effects = []\<rparr>"

text \<open>The bytes of an ASCII text, and the object \<open>{}\<close>.\<close>

definition ascii :: "string \<Rightarrow> byte list" where
  "ascii s = map (\<lambda>c. of_nat (of_char c)) s"

definition no_fields :: metadata where
  "no_fields =
     \<lparr>msgType = JUndefined, protocolVersion = JUndefined, messageType = JUndefined,
      sessionId = JUndefined, documentType = JUndefined, originalPath = JUndefined,
      outputFormat = JUndefined, mimeType = JUndefined, timestamp = JUndefined,
      sequenceNumber = JUndefined, transportMode = JUndefined, filePath = JUndefined,
      mmapName = JUndefined, dataSize = JUndefined, checksum = JUndefined,
      commandId = JUndefined, commandType = JUndefined\<rparr>"

subsection \<open>Example lines and an example environment\<close>

definition initialized_line :: "byte list" where
  \<open>initialized_line = ascii ''{"type":"initialized"}''\<close>

definition snapshot_line :: "byte list" where
  \<open>snapshot_line = ascii ''{"type":"snapshot","sessionId":"s1","sequenceNumber":1}''\<close>

definition snapshot_metadata :: metadata where
  "snapshot_metadata =
     no_fields\<lparr>msgType := JStr ''snapshot'', sessionId := JStr ''s1'', sequenceNumber := JNum 1\<rparr>"

definition checked_line :: "byte list" where
  \<open>checked_line =
     ascii ''{"type":"snapshot","sessionId":"s1","sequenceNumber":1,"checksum":1926437589}''\<close>

definition corrupt_line :: "byte list" where
  \<open>corrupt_line = ascii ''{"type":"snapshot","sessionId":"s1","sequenceNumber":1,"checksum":1}''\<close>

definition file_line :: "byte list" where
  \<open>file_line =
     ascii ''{"type":"snapshot","sessionId":"s1","sequenceNumber":2,"transportMode":"file","filePath":"/tmp/s1.bin"}''\<close>

definition missing_file_line :: "byte list" where
  \<open>missing_file_line =
     ascii ''{"type":"snapshot","sessionId":"s1","sequenceNumber":3,"transportMode":"file","filePath":"/tmp/gone.bin"}''\<close>

definition mmap_line :: "byte list" where
  \<open>mmap_line =
     ascii ''{"type":"snapshot","sessionId":"s1","sequenceNumber":4,"transportMode":"mmap","mmapName":"/s1","dataSize":5}''\<close>

definition garbage_line :: "byte list" where
  \<open>garbage_line = ascii ''{"type":''\<close>

text \<open>
  What \<open>JSON.parse\<close> gives on the example lines, and a syntax error on any other
  line.
\<close>

definition example_parse :: "js_string \<Rightarrow> string + json" where
  "example_parse line =
     (if line = initialized_line then Inr (JsonValue (no_fields\<lparr>msgType := JStr ''initialized''\<rparr>))
      else if line = snapshot_line then Inr (JsonValue snapshot_metadata)
      else if line = checked_line
        then Inr (JsonValue (snapshot_metadata\<lparr>checksum := JNum 1926437589\<rparr>))
      else if line = corrupt_line then Inr (JsonValue (snapshot_metadata\<lparr>checksum := JNum 1\<rparr>))
      else if line = file_line
        then Inr (JsonValue (snapshot_metadata\<lparr>sequenceNumber := JNum 2,
                   transportMode := JStr ''file'', filePath := JStr ''/tmp/s1.bin''\<rparr>))
      else if line = missing_file_line
        then Inr (JsonValue (snapshot_metadata\<lparr>sequenceNumber := JNum 3,
                   transportMode := JStr ''file'', filePath := JStr ''/tmp/gone.bin''\<rparr>))
      else if line = mmap_line
        then Inr (JsonValue (snapshot_metadata\<lparr>sequenceNumber := JNum 4,
                   transportMode := JStr ''mmap'', mmapName := JStr ''/s1'', dataSize := JNum 5\<rparr>))
      else Inl ''Unexpected token'')"

text \<open>
  An environment with one readable file, on a platform without shared memory. A
  string holds at most \<open>0x1fffffe8\<close> characters, and the example lines are ASCII.
\<close>

definition example_env :: env where
  "example_env =
     \<lparr>toString_utf8 = (\<lambda>bytes. if length bytes \<le> 0x1fffffe8 then Some bytes else None),
      JSON_parse = example_parse,
      defaultTransport = ''stdin'',
      readFile = (\<lambda>p. if p = Path (JStr ''/tmp/s1.bin'') then Inr (ascii ''ABCDE'')
                      else Inl ''ENOENT: no such file or directory''),
      currentPlatform = ''sunos'',
      koffi_import = Some ''Cannot find package koffi'',
      OpenFileMappingW = (\<lambda>name. Inl 2),
      MapViewOfFile = (\<lambda>h n. Inl 6),
      package_json = Inr \<lparr>pkg_name = JStr ''aspose-mcp-preview'', pkg_version = JStr ''1.0.0'',
                           pkg_description = JStr ''Preview'', pkg_author = ''Aspose'',
                           pkg_websiteUrl = []\<rparr>\<rparr>"


text \<open>A line of \<open>0x1fffffe9\<close> letters \<open>x\<close>: one more than a string can hold.\<close>

definition overlong_line :: "byte list" where
  "overlong_line = replicate 0x1fffffe9 0x78"

section \<open>Frames on the wire\<close>




text \<open>
  The variable \<open>crc32Table\<close> is \<open>null\<close> or holds the generated table: it starts as
  \<open>null\<close> and only \<open>getCRC32Table\<close> assigns it.
\<close>

definition table_ok :: "parser_state \<Rightarrow> bool" where
  "table_ok st \<longleftrightarrow> crc32Table st = None \<or> crc32Table st = Some generateCRC32Table"


section \<open>What can happen to the parser\<close>

text \<open>
  One step of the life of the parser: a chunk is appended to the buffer, a message
  is parsed, the listener reports an error, or \<open>start\<close> or \<open>stop\<close> is called.
\<close>

inductive parser_step :: "env \<Rightarrow> parser_state \<Rightarrow> parser_state \<Rightarrow> bool" for E where
  received: "parser_step E st (st\<lparr>buffer := buffer st @ chunk\<rparr>)"
| parsed: "parser_step E st (snd (parseMessage E st))"
| reported: "parser_step E st (onError err st)"
| started: "parser_step E st (start st)"
| stopped: "parser_step E st (stop st)"

text \<open>
  How many times \<open>onInitialized\<close> has been called.
\<close>

definition initialized_calls :: "parser_state \<Rightarrow> nat" where
  "initialized_calls st = length (filter (\<lambda>e. e = Callback OnInitialized) (trace st))"

section \<open>The table-driven checksum is the reference checksum\<close>

lemma crc_shift_bit:
  "crc_shift c = (if bit c 0 then 0xedb88320 XOR drop_bit 1 c else drop_bit 1 c)"
  unfolding crc_shift_def
  by (simp add: and_one_eq bit_0 mod_2_eq_odd)

lemma crc_shift_xor: "crc_shift (x XOR y) = crc_shift x XOR crc_shift y"
  by (simp add: crc_shift_bit bit_xor_iff ac_simps)

lemma crc_shift_funpow_xor:
  "(crc_shift ^^ k) (x XOR y) = (crc_shift ^^ k) x XOR (crc_shift ^^ k) y"
  by (induction k arbitrary: x y) (simp_all add: crc_shift_xor)

text \<open>While the low bits are zero, the polynomial is never added: the steps only shift.\<close>

lemma crc_shift_low_zero: "take_bit k y = 0 \<Longrightarrow> (crc_shift ^^ k) y = drop_bit k y"
proof (induction k arbitrary: y)
  case 0
  then show ?case by simp
next
  case (Suc k)
  have nb: "\<not> bit y 0"
    using Suc.prems
    by (metis bit_of_bool_iff bit_take_bit_iff of_bool_eq(1) zero_less_Suc)
  have tk: "take_bit k (drop_bit 1 y) = 0"
    using Suc.prems
    by (metis One_nat_def diff_Suc_1' drop_bit_of_0 drop_bit_take_bit)
  have "(crc_shift ^^ Suc k) y = (crc_shift ^^ k) (crc_shift y)"
    by (simp add: funpow_swap1)
  also have "crc_shift y = drop_bit 1 y"
    using nb by (simp add: crc_shift_bit)
  also have "(crc_shift ^^ k) (drop_bit 1 y) = drop_bit k (drop_bit 1 y)"
    using Suc.IH tk by simp
  finally show ?case by simp
qed

lemma xor_bool_bit0: "bit ((r::uint32) XOR of_bool m) 0 = (bit r 0 \<noteq> m)"
  by (cases m) (simp_all add: bit_xor_iff bit_1_iff)

lemma xor_bool_drop: "drop_bit 1 ((r::uint32) XOR of_bool m) = drop_bit 1 r"
  by (cases m) (simp_all add: drop_bit_xor del: drop_bit_Suc)

lemma reference_bit_shift: "reference_bit r m = crc_shift (r XOR of_bool m)"
  unfolding reference_bit_def crc_shift_bit xor_bool_bit0 xor_bool_drop
  by (simp add: ac_simps)

lemma single_bit_low: "take_bit k (push_bit k (of_bool c) :: uint32) = 0"
  by (simp add: take_bit_push_bit)

lemma single_bit_high:
  "k < 32 \<Longrightarrow> (drop_bit k (push_bit k (of_bool c)) :: uint32) = of_bool c"
  by (rule bit_eqI)
     (auto simp add: bit_drop_bit_eq bit_push_bit_iff bit_1_iff simp del: push_bit_of_1)

lemma take_bit_Suc_xor:
  "take_bit (Suc k) (u::uint32) = take_bit k u XOR push_bit k (of_bool (bit u k))"
  by (rule bit_eqI)
     (auto simp add: bit_take_bit_iff bit_xor_iff bit_push_bit_iff bit_1_iff less_Suc_eq
           simp del: push_bit_of_1)

lemma split_low: "(x::uint32) = push_bit k (drop_bit k x) XOR take_bit k x"
  by (rule bit_eqI)
     (auto simp add: bit_take_bit_iff bit_xor_iff bit_push_bit_iff bit_drop_bit_eq)

text \<open>Adding the message bits one by one is adding the byte at once.\<close>

lemma reference_bits_prefix:
  "k \<le> 8 \<Longrightarrow> foldl reference_bit r (map (bit b) [0..<k])
     = (crc_shift ^^ k) (r XOR take_bit k (ucast (b::byte)))"
proof (induction k)
  case 0
  then show ?case by simp
next
  case (Suc k)
  let ?u = "ucast b :: uint32"
  let ?m = "of_bool (bit b k) :: uint32"
  have k: "k < 8" using Suc.prems by simp
  have bu: "bit ?u k = bit b k" using k by (simp add: bit_ucast_iff)
  have one: "(crc_shift ^^ k) (push_bit k ?m) = ?m"
    using k by (simp add: crc_shift_low_zero single_bit_low single_bit_high del: push_bit_of_1)
  have "foldl reference_bit r (map (bit b) [0..<Suc k])
      = reference_bit ((crc_shift ^^ k) (r XOR take_bit k ?u)) (bit b k)"
    using Suc.IH k by simp
  also have "\<dots> = crc_shift ((crc_shift ^^ k) (r XOR take_bit k ?u)
                       XOR (crc_shift ^^ k) (push_bit k ?m))"
    by (simp only: reference_bit_shift one)
  also have "\<dots> = crc_shift ((crc_shift ^^ k) (r XOR take_bit (Suc k) ?u))"
    by (simp only: crc_shift_funpow_xor [symmetric] take_bit_Suc_xor [of k ?u] bu xor.assoc)
  finally show ?case by simp
qed

lemma reference_byte_shift: "reference_byte r b = (crc_shift ^^ 8) (r XOR ucast b)"
proof -
  have "take_bit 8 (ucast b :: uint32) = ucast b"
    by (rule bit_eqI) (auto simp add: bit_take_bit_iff bit_ucast_iff dest: bit_imp_le_length)
  then show ?thesis
    unfolding reference_byte_def using reference_bits_prefix [of 8 r b] by simp
qed

lemma table_lookup:
  "generateCRC32Table ! unat (y AND 0xff) = (crc_shift ^^ 8) ((y::uint32) AND 0xff)"
proof -
  have "unat (y AND 0xff) \<le> unat (0xff :: uint32)"
    by (rule word_and_le1 [THEN word_le_nat_alt [THEN iffD1]])
  then have lt: "unat (y AND 0xff) < 256" by simp
  then show ?thesis
    by (simp add: generateCRC32Table_def crc_table_entry_def del: upt_Suc)
qed

lemma mask_low: "(y::uint32) AND 0xff = take_bit 8 y"
  by (simp add: take_bit_eq_mask mask_eq_exp_minus_1)

lemma crc_shift_high: "(crc_shift ^^ 8) (push_bit 8 (drop_bit 8 x)) = drop_bit 8 (x::uint32)"
proof -
  have "take_bit 8 (push_bit 8 (drop_bit 8 x)) = 0"
    by (simp add: take_bit_push_bit)
  moreover have "drop_bit 8 (push_bit 8 (drop_bit 8 x)) = drop_bit 8 x"
    by (rule bit_eqI)
       (auto simp add: bit_push_bit_iff bit_drop_bit_eq dest: bit_imp_le_length)
  ultimately show ?thesis
    by (simp only: crc_shift_low_zero)
qed

lemma crc_update_shift:
  "crc_update generateCRC32Table crc b = (crc_shift ^^ 8) (crc XOR ucast b)"
proof -
  let ?y = "crc XOR ucast b :: uint32"
  have hi: "drop_bit 8 ?y = drop_bit 8 crc"
    by (rule bit_eqI)
       (auto simp add: bit_drop_bit_eq bit_xor_iff bit_ucast_iff dest: bit_imp_le_length)
  have "(crc_shift ^^ 8) ?y
      = (crc_shift ^^ 8) (push_bit 8 (drop_bit 8 ?y)) XOR (crc_shift ^^ 8) (take_bit 8 ?y)"
    using split_low [of ?y 8] crc_shift_funpow_xor by metis
  also have "(crc_shift ^^ 8) (push_bit 8 (drop_bit 8 ?y)) = drop_bit 8 ?y"
    by (rule crc_shift_high)
  finally have shift:
    "(crc_shift ^^ 8) ?y = drop_bit 8 crc XOR (crc_shift ^^ 8) (take_bit 8 ?y)"
    by (simp only: hi)
  have "crc_update generateCRC32Table crc b
      = drop_bit 8 crc XOR (crc_shift ^^ 8) (?y AND 0xff)"
    by (simp only: crc_update_def table_lookup)
  also have "?y AND 0xff = take_bit 8 ?y"
    by (rule mask_low)
  finally show ?thesis
    by (simp only: shift)
qed

lemma foldl_cong_fun: "(\<And>a x. f a x = g a x) \<Longrightarrow> foldl f a xs = foldl g a xs"
  by (induction xs arbitrary: a) simp_all

lemma table_fold_reference:
  "foldl (crc_update generateCRC32Table) r data = foldl reference_byte r data"
  by (rule foldl_cong_fun) (simp only: crc_update_shift reference_byte_shift)

lemma calculateCRC32_None:
  "calculateCRC32 None data = (reference_crc32 data, Some generateCRC32Table)"
  by (simp add: calculateCRC32_def getCRC32Table_def reference_crc32_def table_fold_reference)

lemma calculateCRC32_Some:
  "calculateCRC32 (Some generateCRC32Table) data = (reference_crc32 data, Some generateCRC32Table)"
  by (simp add: calculateCRC32_def getCRC32Table_def reference_crc32_def table_fold_reference)

text \<open>
  C6. For every byte sequence, \<open>calculateCRC32\<close> returns the reflected CRC-32 with
  polynomial \<open>0xEDB88320\<close> and initial and final XOR \<open>0xFFFFFFFF\<close>, whether the table has
  been generated before or not. The table has 256 entries, it is generated by the
  first call, and a call that finds a table returns that table and leaves it as it is.
\<close>

theorem calculateCRC32_is_reference:
  "calculateCRC32 None data = (reference_crc32 data, Some generateCRC32Table)
   \<and> calculateCRC32 (Some generateCRC32Table) data = (reference_crc32 data, Some generateCRC32Table)
   \<and> length generateCRC32Table = 256
   \<and> getCRC32Table None = (generateCRC32Table, Some generateCRC32Table)
   \<and> getCRC32Table (Some t) = (t, Some t)"
proof -
  have "length generateCRC32Table = 256"
    by (simp add: generateCRC32Table_def del: upt_Suc)
  then show ?thesis
    by (simp add: calculateCRC32_None calculateCRC32_Some getCRC32Table_def)
qed

section \<open>The session store\<close>

lemma records_of_update:
  "distinct (map fst store) \<Longrightarrow> records_of (AList.update k v store) k = [v]"
proof (induction store)
  case Nil
  then show ?case by (simp add: records_of_def)
next
  case (Cons p ps)
  show ?case
  proof (cases "fst p = k")
    case True
    then have "k \<notin> fst ` set ps" using Cons.prems by auto
    then have "filter (\<lambda>entry. fst entry = k) ps = []"
      by (auto simp add: filter_empty_conv)
    then show ?thesis using True by (simp add: records_of_def)
  next
    case False
    then show ?thesis using Cons by (simp add: records_of_def)
  qed
qed

lemma getSession_update: "getSession (AList.update k v store) k = Some v"
  by (simp add: getSession_def update_conv')

lemma distinct_updateSnapshot:
  "distinct (map fst store) \<Longrightarrow> distinct (map fst (updateSnapshot sid metadata d store))"
  unfolding updateSnapshot_def by (rule distinct_update)

lemma distinct_removeSession:
  "distinct (map fst store) \<Longrightarrow> distinct (map fst (removeSession sid store))"
  unfolding removeSession_def by (rule distinct_delete)

lemma distinct_markAsViewed:
  "distinct (map fst store) \<Longrightarrow> distinct (map fst (markAsViewed sid store))"
  unfolding markAsViewed_def by (simp add: distinct_update split: option.split)

text \<open>
  C4. In a store whose keys are distinct (as they are in every store built from the
  empty one), two calls of \<open>updateSnapshot\<close> with one session id, one right after the
  other, leave exactly one record under that id. The record is the one the second call
  built: every field comes from the second call's arguments, its payload is the second
  payload, and \<open>hasUpdate\<close> is true.
\<close>

theorem updateSnapshot_twice:
  assumes "distinct (map fst store)"
  shows "records_of (updateSnapshot sid m2 d2 (updateSnapshot sid m1 d1 store)) sid
           = [snapshot sid m2 d2]
       \<and> getSession (updateSnapshot sid m2 d2 (updateSnapshot sid m1 d1 store)) sid
           = Some (snapshot sid m2 d2)
       \<and> snap_data (snapshot sid m2 d2) = d2
       \<and> snap_hasUpdate (snapshot sid m2 d2)"
proof -
  have "distinct (map fst (updateSnapshot sid m1 d1 store))"
    using assms by (rule distinct_updateSnapshot)
  then have "records_of (updateSnapshot sid m2 d2 (updateSnapshot sid m1 d1 store)) sid
               = [snapshot sid m2 d2]"
    unfolding updateSnapshot_def [of sid m2] by (rule records_of_update)
  moreover have "getSession (updateSnapshot sid m2 d2 (updateSnapshot sid m1 d1 store)) sid
               = Some (snapshot sid m2 d2)"
    unfolding updateSnapshot_def [of sid m2] by (rule getSession_update)
  ultimately show ?thesis
    by (simp add: snapshot_def)
qed

theorem updateSnapshot_twice_witness:
  "distinct (map fst ([] :: sessions))
   \<and> records_of
        (updateSnapshot (JStr ''s1'') (no_fields\<lparr>sequenceNumber := JNum 2\<rparr>) (ascii ''NEW'')
          (updateSnapshot (JStr ''s1'')
             (no_fields\<lparr>sequenceNumber := JNum 1, mimeType := JStr ''image/png''\<rparr>)
             (ascii ''OLD'') []))
        (JStr ''s1'')
      = [snapshot (JStr ''s1'') (no_fields\<lparr>sequenceNumber := JNum 2\<rparr>) (ascii ''NEW'')]
   \<and> snap_mimeType (snapshot (JStr ''s1'') (no_fields\<lparr>sequenceNumber := JNum 2\<rparr>) (ascii ''NEW''))
      = JUndefined"
  using updateSnapshot_twice [of "[]" "JStr ''s1''" "no_fields\<lparr>sequenceNumber := JNum 2\<rparr>"
      "ascii ''NEW''" "no_fields\<lparr>sequenceNumber := JNum 1, mimeType := JStr ''image/png''\<rparr>"
      "ascii ''OLD''"]
  by (simp add: snapshot_def no_fields_def)

text \<open>
  C8, as the claim states it, fails: the stored record has no place for the
  transport-specific fields. A snapshot that carries \<open>transportMode\<close>, \<open>filePath\<close>,
  \<open>mmapName\<close>, \<open>dataSize\<close> and \<open>checksum\<close> is stored as the very record that the same
  snapshot without them is stored as.
\<close>

theorem stored_record_drops_transport_fields:
  "getSession
     (sessionStore (host_callback False
        (OnSnapshot (no_fields\<lparr>msgType := JStr ''snapshot'', sessionId := JStr ''s1'',
                                sequenceNumber := JNum 1, transportMode := JStr ''mmap'',
                                filePath := JStr ''/tmp/s1.bin'', mmapName := JStr ''/s1'',
                                dataSize := JNum 5, checksum := JNum 1926437589\<rparr>)
                    (ascii ''ABCDE'')) initial_host))
     (JStr ''s1'')
   = getSession
     (sessionStore (host_callback False
        (OnSnapshot (no_fields\<lparr>msgType := JStr ''snapshot'', sessionId := JStr ''s1'',
                                sequenceNumber := JNum 1\<rparr>)
                    (ascii ''ABCDE'')) initial_host))
     (JStr ''s1'')
   \<and> transportMode (no_fields\<lparr>transportMode := JStr ''mmap''\<rparr>) \<noteq> transportMode no_fields
   \<and> checksum (no_fields\<lparr>checksum := JNum 1926437589\<rparr>) \<noteq> checksum no_fields"
  by (simp add: getSession_def updateSnapshot_def snapshot_def perform_def initial_host_def
        no_fields_def)

text \<open>
  C8, amended. The record stored for a delivered snapshot holds the session id under
  which it is stored, the fields \<open>documentType\<close>, \<open>originalPath\<close>, \<open>outputFormat\<close>,
  \<open>mimeType\<close>, \<open>timestamp\<close> and \<open>sequenceNumber\<close> of the metadata, the payload, and
  \<open>hasUpdate = true\<close>, and nothing else.
\<close>

theorem stored_record_fields:
  "getSession (sessionStore (host_callback noOpen (OnSnapshot metadata d) h)) (sessionId metadata)
   = Some \<lparr>snap_sessionId = sessionId metadata,
           snap_documentType = documentType metadata,
           snap_originalPath = originalPath metadata,
           snap_outputFormat = outputFormat metadata,
           snap_mimeType = mimeType metadata,
           snap_timestamp = timestamp metadata,
           snap_sequenceNumber = sequenceNumber metadata,
           snap_data = d,
           snap_hasUpdate = True\<rparr>"
  by (simp add: updateSnapshot_def getSession_update perform_def snapshot_def)

section \<open>Commands\<close>



section \<open>Buffers\<close>

lemma indexOf_absent: "b \<notin> set xs \<Longrightarrow> indexOf xs b = -1"
  by (induction xs) auto

lemma indexOf_first: "b \<notin> set line \<Longrightarrow> indexOf (line @ b # rest) b = int (length line)"
  by (induction line) (auto simp add: Let_def)

lemma subarray_prefix: "subarray (line @ rest) 0 (Some (int (length line))) = line"
  by (auto simp add: subarray_def adjustOffset_def Let_def)




lemma subarray_tail: "int (length pre) = a \<Longrightarrow> subarray (pre @ rest) a None = rest"
  by (auto simp add: subarray_def adjustOffset_def Let_def)





lemma line_head:
  assumes "newline \<notin> set line" "buffer st = line @ newline # rest"
  shows "indexOf (buffer st) newline = int (length line)"
    and "subarray (buffer st) 0 (Some (int (length line))) = line"
    and "subarray (buffer st) (int (length line) + 1) None = rest"
proof -
  show "indexOf (buffer st) newline = int (length line)"
    using assms by (simp add: indexOf_first)
  show "subarray (buffer st) 0 (Some (int (length line))) = line"
    using assms(2) by (simp add: subarray_prefix)
  have "subarray ((line @ [newline]) @ rest) (int (length line) + 1) None = rest"
    by (rule subarray_tail) simp
  then show "subarray (buffer st) (int (length line) + 1) None = rest"
    using assms(2) by simp
qed

section \<open>The loop of processData\<close>

lemma parse_loop_done:
  "parseMessage E st = (Returned False, st') \<Longrightarrow> parse_loop E st = Some (Returned (), st')"
  by (subst parse_loop.simps) simp

lemma parse_loop_again:
  "parseMessage E st = (Returned True, st') \<Longrightarrow> parse_loop E st = parse_loop E st'"
  by (subst parse_loop.simps) simp

lemma parse_no_newline:
  "newline \<notin> set (buffer st) \<Longrightarrow> parseMessage E st = (Returned False, st)"
  by (simp add: parseMessage_def indexOf_absent)

lemma parse_loop_empty: "buffer st = [] \<Longrightarrow> parse_loop E st = Some (Returned (), st)"
  by (rule parse_loop_done) (simp add: parse_no_newline)

lemma on_data_idle:
  assumes "buffer st = []"
  shows "on_data E [] st = Some st"
proof -
  have "st\<lparr>buffer := buffer st @ []\<rparr> = st" by simp
  then show ?thesis
    using parse_loop_empty [OF assms, of E] by (simp add: on_data_def processData_def)
qed


section \<open>What the parts of the parser leave alone\<close>

lemma then_true_snd: "snd (then_true p) = snd p"
  by (cases p rule: then_true.cases) simp_all

lemma ready_basic:
  "handshakeComplete (emit e st) = handshakeComplete st"
  "handshakeComplete (log l st) = handshakeComplete st"
  "handshakeComplete (consume_line i st) = handshakeComplete st"
  "handshakeComplete (sendPong st) = handshakeComplete st"
  "handshakeComplete (onError err st) = handshakeComplete st"
  "handshakeComplete (size_check sz d st) = handshakeComplete st"
  "handshakeComplete (snd (sendAck s st)) = handshakeComplete st"
  "handshakeComplete (snd (invoke c st)) = handshakeComplete st"
  "handshakeComplete (snd (sendCommandResult cid ok r er st)) = handshakeComplete st"
  "handshakeComplete (snd (then_true p)) = handshakeComplete (snd p)"
  by (simp_all add: emit_def log_def consume_line_def sendPong_def onError_def size_check_def
        sendAck_def invoke_def sendCommandResult_def then_true_snd)

lemma ready_ack_then_deliver:
  "handshakeComplete (snd (ack_then_deliver m d st)) = handshakeComplete st"
proof (cases "sendAck (sequenceNumber m) st")
  case (Pair c st1)
  then have "handshakeComplete st1 = handshakeComplete st"
    using ready_basic(7) [of "sequenceNumber m" st] by simp
  then show ?thesis
    using Pair by (cases c) (simp_all add: ack_then_deliver_def ready_basic)
qed

lemma ready_handleCommand: "handshakeComplete (snd (handleCommand E m st)) = handshakeComplete st"
  by (simp add: handleCommand_def ready_basic)

lemma ready_sendInitializeResponse:
  "handshakeComplete (snd (sendInitializeResponse E st)) = handshakeComplete st"
  by (simp add: sendInitializeResponse_def ready_basic split: sum.splits)

lemma ready_readFromFile: "handshakeComplete (snd (readFromFile E fp st)) = handshakeComplete st"
  by (simp add: readFromFile_def ready_basic split: sum.splits)

lemma ready_initializeWindowsAsync:
  "handshakeComplete (snd (initializeWindowsAsync E st)) = handshakeComplete st"
  by (simp add: initializeWindowsAsync_def ready_basic Let_def split: option.splits)

lemma ready_readFromMmap:
  "handshakeComplete (snd (readFromMmap E a b c st)) = handshakeComplete st"
proof -
  have "handshakeComplete (snd (case initializeWindowsAsync E st of
           (False, st1) \<Rightarrow> (Inl WindowsSupportNotAvailable, st1)
         | (True, st1) \<Rightarrow> (readFromWindowsMmap E a b, st1))) = handshakeComplete st"
    using ready_initializeWindowsAsync [of E st]
    by (cases "initializeWindowsAsync E st") (simp split: bool.splits)
  then show ?thesis
    by (simp add: readFromMmap_def readFromLinuxMmap_def readFromMacOSMmap_def ready_basic
          split: sum.splits)
qed

lemma ready_after_read:
  "handshakeComplete (snd (case r of
       Inr d \<Rightarrow>
         (case ack_then_deliver m d s of
            (Returned u, st2) \<Rightarrow> (Returned True, st2)
          | (Threw x, st2) \<Rightarrow> (Returned True, onError (wrap (MessageOf x)) st2))
     | Inl err \<Rightarrow> (Returned True, onError (wrap err) s))) = handshakeComplete s"
proof (cases r)
  case (Inl err)
  then show ?thesis by (simp add: ready_basic)
next
  case (Inr d)
  obtain c st2 where a: "ack_then_deliver m d s = (c, st2)"
    by (cases "ack_then_deliver m d s")
  then have "handshakeComplete st2 = handshakeComplete s"
    using ready_ack_then_deliver [of m d s] by simp
  then show ?thesis
    using Inr a by (cases c) (simp_all add: ready_basic)
qed

lemma table_basic:
  "crc32Table (emit e st) = crc32Table st"
  "crc32Table (log l st) = crc32Table st"
  "crc32Table (consume_line i st) = crc32Table st"
  "crc32Table (sendPong st) = crc32Table st"
  "crc32Table (onError err st) = crc32Table st"
  "crc32Table (size_check sz d st) = crc32Table st"
  "crc32Table (snd (sendAck s st)) = crc32Table st"
  "crc32Table (snd (invoke c st)) = crc32Table st"
  "crc32Table (snd (sendCommandResult cid ok r er st)) = crc32Table st"
  "crc32Table (snd (then_true p)) = crc32Table (snd p)"
  by (simp_all add: emit_def log_def consume_line_def sendPong_def onError_def size_check_def
        sendAck_def invoke_def sendCommandResult_def then_true_snd)

lemma table_ack_then_deliver:
  "crc32Table (snd (ack_then_deliver m d st)) = crc32Table st"
proof (cases "sendAck (sequenceNumber m) st")
  case (Pair c st1)
  then have "crc32Table st1 = crc32Table st"
    using table_basic(7) [of "sequenceNumber m" st] by simp
  then show ?thesis
    using Pair by (cases c) (simp_all add: ack_then_deliver_def table_basic)
qed

lemma table_handleCommand: "crc32Table (snd (handleCommand E m st)) = crc32Table st"
  by (simp add: handleCommand_def table_basic)

lemma table_sendInitializeResponse:
  "crc32Table (snd (sendInitializeResponse E st)) = crc32Table st"
  by (simp add: sendInitializeResponse_def table_basic split: sum.splits)

lemma table_readFromFile: "crc32Table (snd (readFromFile E fp st)) = crc32Table st"
  by (simp add: readFromFile_def table_basic split: sum.splits)

lemma table_initializeWindowsAsync:
  "crc32Table (snd (initializeWindowsAsync E st)) = crc32Table st"
  by (simp add: initializeWindowsAsync_def table_basic Let_def split: option.splits)

lemma table_readFromMmap:
  "crc32Table (snd (readFromMmap E a b c st)) = crc32Table st"
proof -
  have "crc32Table (snd (case initializeWindowsAsync E st of
           (False, st1) \<Rightarrow> (Inl WindowsSupportNotAvailable, st1)
         | (True, st1) \<Rightarrow> (readFromWindowsMmap E a b, st1))) = crc32Table st"
    using table_initializeWindowsAsync [of E st]
    by (cases "initializeWindowsAsync E st") (simp split: bool.splits)
  then show ?thesis
    by (simp add: readFromMmap_def readFromLinuxMmap_def readFromMacOSMmap_def table_basic
          split: sum.splits)
qed

lemma table_after_read:
  "crc32Table (snd (case r of
       Inr d \<Rightarrow>
         (case ack_then_deliver m d s of
            (Returned u, st2) \<Rightarrow> (Returned True, st2)
          | (Threw x, st2) \<Rightarrow> (Returned True, onError (wrap (MessageOf x)) st2))
     | Inl err \<Rightarrow> (Returned True, onError (wrap err) s))) = crc32Table s"
proof (cases r)
  case (Inl err)
  then show ?thesis by (simp add: table_basic)
next
  case (Inr d)
  obtain c st2 where a: "ack_then_deliver m d s = (c, st2)"
    by (cases "ack_then_deliver m d s")
  then have "crc32Table st2 = crc32Table s"
    using table_ack_then_deliver [of m d s] by simp
  then show ?thesis
    using Inr a by (cases c) (simp_all add: table_basic)
qed

lemma ready_read_case:
  assumes "handshakeComplete (snd pr) = handshakeComplete s"
  shows "handshakeComplete (snd (case pr of
       (Inr d, st1) \<Rightarrow>
         (case ack_then_deliver m d st1 of
            (Returned u, st2) \<Rightarrow> (Returned True, st2)
          | (Threw x, st2) \<Rightarrow> (Returned True, onError (wrap (MessageOf x)) st2))
     | (Inl err, st1) \<Rightarrow> (Returned True, onError (wrap err) st1))) = handshakeComplete s"
proof (cases pr)
  case (Pair r st1)
  then have "handshakeComplete st1 = handshakeComplete s" using assms by simp
  then show ?thesis
    using Pair ready_after_read [where r = r and m = m and s = st1 and wrap = wrap] by simp
qed

lemma table_read_case:
  assumes "crc32Table (snd pr) = crc32Table s"
  shows "crc32Table (snd (case pr of
       (Inr d, st1) \<Rightarrow>
         (case ack_then_deliver m d st1 of
            (Returned u, st2) \<Rightarrow> (Returned True, st2)
          | (Threw x, st2) \<Rightarrow> (Returned True, onError (wrap (MessageOf x)) st2))
     | (Inl err, st1) \<Rightarrow> (Returned True, onError (wrap err) st1))) = crc32Table s"
proof (cases pr)
  case (Pair r st1)
  then have "crc32Table st1 = crc32Table s" using assms by simp
  then show ?thesis
    using Pair table_after_read [where r = r and m = m and s = st1 and wrap = wrap] by simp
qed

lemma ready_parseSnapshot:
  "handshakeComplete (snd (parseSnapshot E m i st)) = handshakeComplete st"
  by (simp add: parseSnapshot_def Let_def ready_read_case ready_readFromFile ready_readFromMmap
        ready_basic ready_ack_then_deliver
      split: option.splits prod.splits)

lemma parseMessage_ready:
  "handshakeComplete st \<Longrightarrow> handshakeComplete (snd (parseMessage E st))"
  by (simp add: parseMessage_def Let_def ready_basic ready_handleCommand ready_parseSnapshot
        ready_sendInitializeResponse
      split: sum.splits json.splits option.splits)

lemma calculateCRC32_ok:
  "table_ok st \<Longrightarrow>
   calculateCRC32 (crc32Table st) data = (reference_crc32 data, Some generateCRC32Table)"
  by (auto simp add: table_ok_def calculateCRC32_None calculateCRC32_Some)

lemma table_ok_parseSnapshot:
  assumes "table_ok st"
  shows "table_ok (snd (parseSnapshot E m i st))"
proof -
  have crc: "calculateCRC32 (crc32Table st) d = (reference_crc32 d, Some generateCRC32Table)" for d
    using assms by (rule calculateCRC32_ok)
  show ?thesis
    using assms
    by (simp add: parseSnapshot_def Let_def table_read_case table_readFromFile table_readFromMmap
          table_basic table_ack_then_deliver table_ok_def crc
        split: option.splits)
qed

lemma table_ok_parseMessage:
  assumes "table_ok st"
  shows "table_ok (snd (parseMessage E st))"
proof -
  have "table_ok (snd (parseSnapshot E m i st))" for m i
    using assms by (rule table_ok_parseSnapshot)
  then show ?thesis
    using assms
    by (simp add: parseMessage_def Let_def table_basic table_handleCommand
          table_sendInitializeResponse table_ok_def
        split: sum.splits json.splits option.splits)
qed

section \<open>Inline snapshots\<close>

lemma decodeD:
  "decode E line = Some r \<Longrightarrow> \<exists>jsonLine. toString_utf8 E line = Some jsonLine \<and> JSON_parse E jsonLine = r"
  by (auto simp add: decode_def)























section \<open>Snapshots read from a file or from shared memory\<close>









section \<open>Lines that cannot be decoded\<close>

text \<open>
  A line that is converted to a string and then refused by \<open>JSON.parse\<close>:
  \<open>parseMessage\<close> calls \<open>onError\<close> once, removes the line and its newline and
  nothing more, and returns \<open>true\<close>.
\<close>

lemma unparsable_line_skipped:
  assumes "newline \<notin> set line" and "decode E line = Some (Inl msg)"
    and "buffer st = line @ newline # rest"
  shows "parseMessage E st
           = (Returned True,
              st\<lparr>buffer := rest,
                 trace := trace st @ [Callback (OnError (FailedToParseJSON msg))]\<rparr>)"
proof -
  obtain jsonLine where "toString_utf8 E line = Some jsonLine" and "JSON_parse E jsonLine = Inl msg"
    using assms(2) decodeD by blast
  then show ?thesis
    using line_head [OF assms(1,3)]
    by (simp add: parseMessage_def Let_def consume_line_def onError_def emit_def)
qed

text \<open>
  A line that is too long to be converted to a string: the conversion throws before
  the \<open>try\<close>, and nothing is consumed.
\<close>

lemma overlong_line_kept:
  assumes "newline \<notin> set line" and "toString_utf8 E line = None"
    and "buffer st = line @ newline # rest"
  shows "parseMessage E st = (Threw StringTooLong, st)"
  using assms(2) line_head(1,2) [OF assms(1,3)]
  by (simp add: parseMessage_def Let_def)

lemma parse_loop_threw:
  "parseMessage E st = (Threw x, st') \<Longrightarrow> parse_loop E st = Some (Threw x, st')"
  by (subst parse_loop.simps) simp

lemma on_data_overlong:
  assumes "newline \<notin> set line" and "toString_utf8 E line = None"
    and "buffer st @ c = line @ newline # rest"
  shows "on_data E c st
           = Some (st\<lparr>buffer := line @ newline # rest, trace := trace st @ [Callback (OnError (Uncaught StringTooLong))]\<rparr>)"
proof -
  let ?st = "st\<lparr>buffer := buffer st @ c\<rparr>"
  have "buffer ?st = line @ newline # rest" using assms(3) by simp
  with assms(1,2) have "parseMessage E ?st = (Threw StringTooLong, ?st)"
    by (rule overlong_line_kept)
  then have "parse_loop E ?st = Some (Threw StringTooLong, ?st)"
    by (rule parse_loop_threw)
  then show ?thesis
    using assms(3) by (simp add: on_data_def processData_def onError_def emit_def)
qed

lemma overlong_line_facts:
  "newline \<notin> set overlong_line" "toString_utf8 example_env overlong_line = None"
  by (simp_all add: overlong_line_def newline_def example_env_def)

lemma garbage_line_bad:
  "newline \<notin> set garbage_line
   \<and> decode example_env garbage_line = Some (Inl ''Unexpected token'')"
  by (simp add: decode_def example_env_def example_parse_def garbage_line_def
        initialized_line_def snapshot_line_def checked_line_def corrupt_line_def file_line_def
        missing_file_line_def mmap_line_def ascii_def newline_def)

lemma initialized_line_ok:
  "newline \<notin> set initialized_line
   \<and> decode example_env initialized_line
       = Some (Inr (JsonValue (no_fields\<lparr>msgType := JStr ''initialized''\<rparr>)))"
  by (simp add: decode_def example_env_def example_parse_def initialized_line_def ascii_def
        newline_def)

lemma initialized_step:
  assumes "newline \<notin> set line" and "decode E line = Some (Inr (JsonValue metadata))"
    and "msgType metadata = JStr ''initialized''"
    and "buffer st = line @ newline # rest"
  shows "parseMessage E st
           = (Returned True,
              st\<lparr>buffer := rest, handshakeComplete := True,
                 trace := trace st @ [Callback OnInitialized],
                 stderr := stderr st @ [InfoHandshakeComplete]\<rparr>)"
proof -
  obtain jsonLine where "toString_utf8 E line = Some jsonLine"
    and "JSON_parse E jsonLine = Inr (JsonValue metadata)"
    using assms(2) decodeD by blast
  then show ?thesis
    using assms(3) line_head [OF assms(1,4)]
    by (simp add: parseMessage_def Let_def consume_line_def invoke_def emit_def log_def)
qed

text \<open>
  After such a line the loop of \<open>processData\<close> goes on with the bytes that follow, as
  if they had arrived on their own after the error was reported.
\<close>

lemma on_data_unparsable:
  assumes "newline \<notin> set line" and "decode E line = Some (Inl msg)"
    and "buffer st @ c = line @ newline # rest"
  shows "on_data E c st
           = on_data E rest
               (st\<lparr>buffer := [],
                   trace := trace st @ [Callback (OnError (FailedToParseJSON msg))]\<rparr>)"
proof -
  let ?st = "st\<lparr>buffer := buffer st @ c\<rparr>"
  let ?t = "st\<lparr>buffer := [],
               trace := trace st @ [Callback (OnError (FailedToParseJSON msg))]\<rparr>"
  have "buffer ?st = line @ newline # rest" using assms(3) by simp
  with assms(1,2) have "parseMessage E ?st
           = (Returned True,
              ?st\<lparr>buffer := rest,
                 trace := trace ?st @ [Callback (OnError (FailedToParseJSON msg))]\<rparr>)"
    by (rule unparsable_line_skipped)
  then have "parse_loop E ?st
           = parse_loop E (?st\<lparr>buffer := rest,
                 trace := trace ?st @ [Callback (OnError (FailedToParseJSON msg))]\<rparr>)"
    by (rule parse_loop_again)
  moreover have "?st\<lparr>buffer := rest,
                 trace := trace ?st @ [Callback (OnError (FailedToParseJSON msg))]\<rparr>
        = ?t\<lparr>buffer := buffer ?t @ rest\<rparr>"
    by simp
  ultimately have "parse_loop E ?st = parse_loop E (?t\<lparr>buffer := buffer ?t @ rest\<rparr>)"
    by (simp only:)
  then show ?thesis
    by (simp only: on_data_def processData_def)
qed

text \<open>
  A truncated line and then an \<open>initialized\<close> line, in two chunks or in one: the
  error is reported, and then the handshake is completed.
\<close>

lemma garbage_then_initialized:
  "feed example_env [garbage_line @ [newline], initialized_line @ [newline]] initial_state
     = Some (initial_state\<lparr>handshakeComplete := True,
               trace := [Callback (OnError (FailedToParseJSON ''Unexpected token'')),
                         Callback OnInitialized],
               stderr := [InfoHandshakeComplete]\<rparr>)"
  "feed example_env [garbage_line @ newline # initialized_line @ [newline]] initial_state
     = Some (initial_state\<lparr>handshakeComplete := True,
               trace := [Callback (OnError (FailedToParseJSON ''Unexpected token'')),
                         Callback OnInitialized],
               stderr := [InfoHandshakeComplete]\<rparr>)"
proof -
  let ?s1 = "initial_state\<lparr>buffer := [],
               trace := trace initial_state
                          @ [Callback (OnError (FailedToParseJSON ''Unexpected token''))]\<rparr>"
  let ?s2 = "?s1\<lparr>buffer := buffer ?s1 @ initialized_line @ [newline]\<rparr>"
  let ?s3 = "?s2\<lparr>buffer := [], handshakeComplete := True,
                 trace := trace ?s2 @ [Callback OnInitialized],
                 stderr := stderr ?s2 @ [InfoHandshakeComplete]\<rparr>"
  note g = garbage_line_bad [THEN conjunct1] garbage_line_bad [THEN conjunct2]
  note i = initialized_line_ok [THEN conjunct1] initialized_line_ok [THEN conjunct2]
  have "parseMessage example_env ?s2 = (Returned True, ?s3)"
    using i by (rule initialized_step) simp_all
  then have "parse_loop example_env ?s2 = Some (Returned (), ?s3)"
    by (simp add: parse_loop_again parse_loop_empty)
  then have second: "on_data example_env (initialized_line @ [newline]) ?s1 = Some ?s3"
    by (simp add: on_data_def processData_def)
  have "on_data example_env (garbage_line @ [newline]) initial_state
          = on_data example_env [] ?s1"
    using g by (rule on_data_unparsable) (simp add: initial_state_def)
  then have first: "on_data example_env (garbage_line @ [newline]) initial_state = Some ?s1"
    by (simp add: on_data_idle)
  have both: "on_data example_env (garbage_line @ newline # initialized_line @ [newline])
                initial_state
          = on_data example_env (initialized_line @ [newline]) ?s1"
    using g by (rule on_data_unparsable) (simp add: initial_state_def)
  have s3: "?s3 = initial_state\<lparr>handshakeComplete := True,
               trace := [Callback (OnError (FailedToParseJSON ''Unexpected token'')),
                         Callback OnInitialized],
               stderr := [InfoHandshakeComplete]\<rparr>"
    by (simp add: initial_state_def)
  show "feed example_env [garbage_line @ [newline], initialized_line @ [newline]] initial_state
     = Some (initial_state\<lparr>handshakeComplete := True,
               trace := [Callback (OnError (FailedToParseJSON ''Unexpected token'')),
                         Callback OnInitialized],
               stderr := [InfoHandshakeComplete]\<rparr>)"
    unfolding s3 [symmetric] using first second by simp
  show "feed example_env [garbage_line @ newline # initialized_line @ [newline]] initial_state
     = Some (initial_state\<lparr>handshakeComplete := True,
               trace := [Callback (OnError (FailedToParseJSON ''Unexpected token'')),
                         Callback OnInitialized],
               stderr := [InfoHandshakeComplete]\<rparr>)"
    unfolding s3 [symmetric] using both second by simp
qed

text \<open>
  C7. The \<open>catch\<close> of \<open>parseMessage\<close> reports the error, removes the line and its
  newline and returns \<open>true\<close>, so that the stream goes on; but the conversion of the
  line to a string stands before the \<open>try\<close>. Take a line of \<open>0x1fffffe9\<close> letters
  \<open>x\<close>, one more than a string can hold: it is no JSON text. \<open>parseMessage\<close> throws
  and leaves the state as it was, the line at the head of the buffer. The listener
  reports the exception; an \<open>initialized\<close> line that arrives afterwards is appended
  behind the line, the same exception is thrown again, and the handshake is never
  completed.
\<close>

theorem overlong_line_stays:
  "parseMessage example_env (initial_state\<lparr>buffer := overlong_line @ [newline]\<rparr>)
     = (Threw StringTooLong, initial_state\<lparr>buffer := overlong_line @ [newline]\<rparr>)
   \<and> feed example_env [overlong_line @ [newline], initialized_line @ [newline]] initial_state
     = Some (initial_state\<lparr>buffer := overlong_line @ newline # initialized_line @ [newline],
               trace := [Callback (OnError (Uncaught StringTooLong)), Callback (OnError (Uncaught StringTooLong))]\<rparr>)"
proof -
  let ?s1 = "initial_state\<lparr>buffer := overlong_line @ newline # [],
               trace := trace initial_state @ [Callback (OnError (Uncaught StringTooLong))]\<rparr>"
  let ?s2 = "?s1\<lparr>buffer := overlong_line @ newline # initialized_line @ [newline],
               trace := trace ?s1 @ [Callback (OnError (Uncaught StringTooLong))]\<rparr>"
  have kept: "parseMessage example_env (initial_state\<lparr>buffer := overlong_line @ [newline]\<rparr>)
     = (Threw StringTooLong, initial_state\<lparr>buffer := overlong_line @ [newline]\<rparr>)"
    using overlong_line_facts by (rule overlong_line_kept) simp
  have first: "on_data example_env (overlong_line @ [newline]) initial_state = Some ?s1"
    using overlong_line_facts by (rule on_data_overlong) (simp add: initial_state_def)
  have second: "on_data example_env (initialized_line @ [newline]) ?s1 = Some ?s2"
    using overlong_line_facts by (rule on_data_overlong) simp
  have "?s2 = initial_state\<lparr>buffer := overlong_line @ newline # initialized_line @ [newline],
               trace := [Callback (OnError (Uncaught StringTooLong)), Callback (OnError (Uncaught StringTooLong))]\<rparr>"
    by (simp add: initial_state_def)
  then show ?thesis
    using kept first second by simp
qed

section \<open>The handshake\<close>

lemma two_initialized_lines:
  assumes "newline \<notin> set l1" and "decode E l1 = Some (Inr (JsonValue m1))"
    and "msgType m1 = JStr ''initialized''"
    and "newline \<notin> set l2" and "decode E l2 = Some (Inr (JsonValue m2))"
    and "msgType m2 = JStr ''initialized''"
    and "buffer st = []"
  shows "feed E [l1 @ newline # l2 @ [newline]] st
           = Some (st\<lparr>handshakeComplete := True,
                      trace := trace st @ [Callback OnInitialized, Callback OnInitialized],
                      stderr := stderr st @ [InfoHandshakeComplete, InfoHandshakeComplete]\<rparr>)"
proof -
  let ?s0 = "st\<lparr>buffer := buffer st @ l1 @ newline # l2 @ [newline]\<rparr>"
  let ?s1 = "?s0\<lparr>buffer := l2 @ [newline], handshakeComplete := True,
                 trace := trace ?s0 @ [Callback OnInitialized],
                 stderr := stderr ?s0 @ [InfoHandshakeComplete]\<rparr>"
  let ?s2 = "?s1\<lparr>buffer := [], handshakeComplete := True,
                 trace := trace ?s1 @ [Callback OnInitialized],
                 stderr := stderr ?s1 @ [InfoHandshakeComplete]\<rparr>"
  have 1: "parseMessage E ?s0 = (Returned True, ?s1)"
    using assms(1,2,3) by (rule initialized_step) (simp add: assms(7))
  have 2: "parseMessage E ?s1 = (Returned True, ?s2)"
    using assms(4,5,6) by (rule initialized_step) simp
  have 3: "parse_loop E ?s2 = Some (Returned (), ?s2)"
    by (rule parse_loop_empty) simp
  have "parse_loop E ?s0 = Some (Returned (), ?s2)"
    by (simp only: parse_loop_again [OF 1] parse_loop_again [OF 2] 3)
  moreover have "?s2 = st\<lparr>handshakeComplete := True,
                      trace := trace st @ [Callback OnInitialized, Callback OnInitialized],
                      stderr := stderr st @ [InfoHandshakeComplete, InfoHandshakeComplete]\<rparr>"
    using assms(7) by simp
  ultimately show ?thesis
    by (simp add: on_data_def processData_def)
qed

text \<open>
  C3, as the claim states it, fails: two \<open>initialized\<close> lines in one chunk, fed to
  the parser in its initial state, make it call \<open>onInitialized\<close> twice.
\<close>

theorem onInitialized_twice:
  "map_option initialized_calls
     (feed example_env [initialized_line @ newline # initialized_line @ [newline]] initial_state)
   = Some 2"
  using two_initialized_lines [of initialized_line example_env
      "no_fields\<lparr>msgType := JStr ''initialized''\<rparr>" initialized_line
      "no_fields\<lparr>msgType := JStr ''initialized''\<rparr>" initial_state]
    initialized_line_ok
  by (simp add: initial_state_def initialized_calls_def)

text \<open>
  C3, amended. For every \<open>initialized\<close> line at the head of the buffer, whatever
  the handshake state is, \<open>parseMessage\<close> consumes the line, sets the state to ready
  and calls \<open>onInitialized\<close> once: the parser has no guard. The callback of \<open>main\<close>
  is guarded by its own flag \<open>serverStarted\<close>: a call that finds the flag unset sets
  it and starts the server; a call that finds it set changes nothing.
\<close>

theorem onInitialized_per_line:
  assumes "newline \<notin> set line" and "decode E line = Some (Inr (JsonValue metadata))"
    and "msgType metadata = JStr ''initialized''"
    and "buffer st = line @ newline # rest"
  shows "parseMessage E st
           = (Returned True,
              st\<lparr>buffer := rest, handshakeComplete := True,
                 trace := trace st @ [Callback OnInitialized],
                 stderr := stderr st @ [InfoHandshakeComplete]\<rparr>)
       \<and> serverStarted (host_callback noOpen OnInitialized h)
       \<and> (serverStarted h \<longrightarrow> host_callback noOpen OnInitialized h = h)
       \<and> (\<not> serverStarted h \<longrightarrow>
            effects (host_callback noOpen OnInitialized h)
              = effects h @ [StartServer] @ (if noOpen then [] else [OpenBrowser])
                  @ [Broadcast WsLogHandshakeComplete])"
  using initialized_step [OF assms] by (simp add: perform_def)

text \<open>
  A second \<open>initialized\<close> line, received when the state is ready already, and
  the callback of \<open>main\<close> called twice.
\<close>

theorem onInitialized_per_line_witness:
  "parseMessage example_env
     (initial_state\<lparr>buffer := initialized_line @ [newline], handshakeComplete := True,
                      trace := [Callback OnInitialized]\<rparr>)
     = (Returned True,
        initial_state\<lparr>handshakeComplete := True,
          trace := [Callback OnInitialized, Callback OnInitialized],
          stderr := [InfoHandshakeComplete]\<rparr>)
   \<and> effects (host_callback False OnInitialized initial_host)
     = [StartServer, OpenBrowser, Broadcast WsLogHandshakeComplete]
   \<and> host_callback False OnInitialized (host_callback False OnInitialized initial_host)
     = host_callback False OnInitialized initial_host"
  using onInitialized_per_line [of initialized_line example_env
      "no_fields\<lparr>msgType := JStr ''initialized''\<rparr>"
      "initial_state\<lparr>buffer := initialized_line @ [newline], handshakeComplete := True,
                      trace := [Callback OnInitialized]\<rparr>" "[]" False initial_host]
    onInitialized_per_line [of initialized_line example_env
      "no_fields\<lparr>msgType := JStr ''initialized''\<rparr>"
      "initial_state\<lparr>buffer := initialized_line @ [newline], handshakeComplete := True,
                      trace := [Callback OnInitialized]\<rparr>" "[]" False
      "host_callback False OnInitialized initial_host"]
    initialized_line_ok
  by (simp add: initial_state_def initial_host_def perform_def)

section \<open>Ready stays ready\<close>

lemma parser_step_ready: "parser_step E st st' \<Longrightarrow> handshakeComplete st \<Longrightarrow> handshakeComplete st'"
  by (induction rule: parser_step.induct)
     (simp_all add: parseMessage_ready onError_def emit_def start_def stop_def)

lemma parse_loop_steps:
  assumes "parse_loop E st = Some y"
  shows "(parser_step E)\<^sup>*\<^sup>* st (snd y)"
proof (rule parse_loop.raw_induct
         [where P = "\<lambda>E st y. (parser_step E)\<^sup>*\<^sup>* st (snd y)", OF _ assms], goal_cases)
  case (1 f E st y)
  show ?case
  proof (cases "parseMessage E st")
    case (Pair c st')
    have step: "parser_step E st st'"
      using parser_step.parsed [of E st] Pair by simp
    show ?thesis
    proof (cases c)
      case (Returned again)
      show ?thesis
      proof (cases again)
        case True
        then have "f E st' = Some y" using 1(2) Pair Returned by simp
        then have "(parser_step E)\<^sup>*\<^sup>* st' (snd y)" by (rule 1(1))
        then show ?thesis using step by simp
      next
        case False
        then have "snd y = st'" using 1(2) Pair Returned by auto
        then show ?thesis using step by simp
      qed
    next
      case (Threw x)
      then have "snd y = st'" using 1(2) Pair by auto
      then show ?thesis using step by simp
    qed
  qed
qed

lemma on_data_steps:
  assumes "on_data E chunk st = Some st'"
  shows "(parser_step E)\<^sup>*\<^sup>* st st'"
proof -
  let ?s0 = "st\<lparr>buffer := buffer st @ chunk\<rparr>"
  have first: "(parser_step E)\<^sup>*\<^sup>* st ?s0"
    using parser_step.received [of E st chunk] by simp
  obtain c s1 where loop: "parse_loop E ?s0 = Some (c, s1)"
    using assms by (auto simp add: on_data_def processData_def split: option.splits)
  have mid: "(parser_step E)\<^sup>*\<^sup>* ?s0 s1"
    using parse_loop_steps [OF loop] by simp
  show ?thesis
  proof (cases c)
    case (Returned u)
    then have "st' = s1"
      using assms loop by (simp add: on_data_def processData_def)
    then show ?thesis using first mid by simp
  next
    case (Threw x)
    then have "st' = onError (Uncaught x) s1"
      using assms loop by (simp add: on_data_def processData_def)
    then have "parser_step E s1 st'"
      using parser_step.reported [of E s1 "Uncaught x"] by simp
    then show ?thesis using first mid by simp
  qed
qed

lemma feed_steps: "feed E chunks st = Some st' \<Longrightarrow> (parser_step E)\<^sup>*\<^sup>* st st'"
proof (induction chunks arbitrary: st)
  case Nil
  then show ?case by simp
next
  case (Cons c cs)
  from Cons.prems obtain s1 where 1: "on_data E c st = Some s1" and 2: "feed E cs s1 = Some st'"
    by (cases "on_data E c st") simp_all
  show ?case
    using on_data_steps [OF 1] Cons.IH [OF 2] by simp
qed

text \<open>
  C9. Once \<open>isReady\<close> is true it stays true: in every state reached by any
  sequence of chunks received, messages parsed, errors reported and calls of
  \<open>start\<close> and \<open>stop\<close>; in the state that feeding any chunks returns; and after
  \<open>stop\<close>.
\<close>

theorem ready_is_permanent:
  assumes "isReady st"
  shows "((parser_step E)\<^sup>*\<^sup>* st st' \<longrightarrow> isReady st')
       \<and> (feed E chunks st = Some st'' \<longrightarrow> isReady st'')
       \<and> isReady (stop st)"
proof -
  have inv: "handshakeComplete s'" if "(parser_step E)\<^sup>*\<^sup>* s s'" "handshakeComplete s" for s s'
    using that by (induction rule: rtranclp_induct) (simp_all add: parser_step_ready)
  show ?thesis
    using assms inv [of st st'] inv [OF feed_steps, of chunks st st'']
    by (auto simp add: isReady_def stop_def)
qed

text \<open>
  From a ready state, \<open>stop\<close> and then a call of \<open>parseMessage\<close>.
\<close>

theorem ready_is_permanent_witness:
  "isReady (initial_state\<lparr>handshakeComplete := True\<rparr>)
   \<and> (parser_step example_env)\<^sup>*\<^sup>* (initial_state\<lparr>handshakeComplete := True\<rparr>)
        (snd (parseMessage example_env
               (stop (initial_state\<lparr>handshakeComplete := True\<rparr>))))
   \<and> isReady (snd (parseMessage example_env
               (stop (initial_state\<lparr>handshakeComplete := True\<rparr>))))"
proof -
  let ?s = "initial_state\<lparr>handshakeComplete := True\<rparr>"
  have ready: "isReady ?s"
    by (simp add: isReady_def)
  have "parser_step example_env ?s (stop ?s)"
    by (rule parser_step.stopped)
  moreover have "parser_step example_env (stop ?s) (snd (parseMessage example_env (stop ?s)))"
    by (rule parser_step.parsed)
  ultimately have reach:
    "(parser_step example_env)\<^sup>*\<^sup>* ?s (snd (parseMessage example_env (stop ?s)))"
    by simp
  show ?thesis
    using ready reach
      ready_is_permanent [OF ready, of example_env
        "snd (parseMessage example_env (stop ?s))" "[]" ?s]
    by simp
qed

end
